theory Spec2Isabelle
  imports Complex_Main "HOL-Library.Product_Lexorder" "HOL-Library.Sublist"
begin

section \<open>Course-code strings\<close>

text \<open>
  Codes are JavaScript strings. The model covers ASCII text: \<open>toUpperCase\<close> and
  \<open>toLowerCase\<close> act on the 26 letters and the regular-expression class \<open>\s\<close> is
  space, tab, line feed, vertical tab, form feed and carriage return.
\<close>

definition toUpperCase :: "string \<Rightarrow> string" where
  "toUpperCase s =
     map (\<lambda>c. case map_of (zip ''abcdefghijklmnopqrstuvwxyz'' ''ABCDEFGHIJKLMNOPQRSTUVWXYZ'') c of
                 Some u \<Rightarrow> u | None \<Rightarrow> c) s"

definition toLowerCase :: "string \<Rightarrow> string" where
  "toLowerCase s =
     map (\<lambda>c. case map_of (zip ''ABCDEFGHIJKLMNOPQRSTUVWXYZ'' ''abcdefghijklmnopqrstuvwxyz'') c of
                 Some l \<Rightarrow> l | None \<Rightarrow> c) s"

definition isSpace :: "char \<Rightarrow> bool" where
  "isSpace c = (c \<in> set [CHR '' '', CHR 0x09, CHR 0x0A, CHR 0x0B, CHR 0x0C, CHR 0x0D])"

text \<open>\<open>s.replace(/\s+/g, ' ')\<close>: every maximal run of white space becomes one space.\<close>

fun collapseRun :: "bool \<Rightarrow> string \<Rightarrow> string" where
  "collapseRun inRun [] = []"
| "collapseRun inRun (c # cs) =
     (if isSpace c then (if inRun then collapseRun True cs else CHR '' '' # collapseRun True cs)
      else c # collapseRun False cs)"

definition collapseSpaces :: "string \<Rightarrow> string" where
  "collapseSpaces s = collapseRun False s"

definition trim :: "string \<Rightarrow> string" where
  "trim s = rev (dropWhile isSpace (rev (dropWhile isSpace s)))"

text \<open>\<open>normalizeCode\<close>: upper case, dashes to spaces, runs of white space collapsed, trimmed.\<close>

definition normalizeCode :: "string \<Rightarrow> string" where
  "normalizeCode raw =
     (if raw = [] then []
      else trim (collapseSpaces (map (\<lambda>c. if c = CHR ''-'' then CHR '' '' else c) (toUpperCase raw))))"

text \<open>\<open>norm\<close> of the program evaluator (collapse, trim, then upper case), named \<open>norm_code\<close> here.\<close>

definition norm_code :: "string \<Rightarrow> string" where
  "norm_code s = toUpperCase (trim (collapseSpaces s))"

text \<open>
  \<open>canonicalizeCode\<close> reads the alias table \<open>state.courseAliases.alias_to_canonical_codes\<close>,
  here the parameter \<open>aliases\<close>; \<open>map[norm] || norm\<close> falls back to the normalised code
  when the key is absent or bound to the empty string.
\<close>

definition canonicalizeCode :: "(string \<rightharpoonup> string) \<Rightarrow> string \<Rightarrow> string" where
  "canonicalizeCode aliases code =
     (let n = normalizeCode code in
      case aliases n of None \<Rightarrow> n | Some c \<Rightarrow> (if c = [] then n else c))"

fun startsWith :: "string \<Rightarrow> string \<Rightarrow> bool" where
  "startsWith s [] = True"
| "startsWith [] (p # ps) = False"
| "startsWith (c # cs) (p # ps) = (c = p \<and> startsWith cs ps)"

fun includesStr :: "string \<Rightarrow> string \<Rightarrow> bool" where
  "includesStr [] sub = (sub = [])"
| "includesStr (c # cs) sub = (startsWith (c # cs) sub \<or> includesStr cs sub)"

section \<open>Prerequisite evaluation\<close>

text \<open>
  A requirement-tree node is a JSON object read through the fields \<open>op\<close>, \<open>nodes\<close>,
  \<open>course\<close>, \<open>CompletionOrder\<close> and \<open>text\<close>. An absent string field is the empty string
  (both are falsy, and neither equals a literal the code compares with); an absent
  \<open>nodes\<close> is the empty list. \<open>PNull\<close> is a \<open>null\<close> node.
\<close>

datatype prereq_node =
    PNull
  | PNode (p_op: string) (p_nodes: "prereq_node list") (p_course: string)
          (p_CompletionOrder: string) (p_text: string)

text \<open>The \<open>options\<close> of a result hold strings and, under an AND, nested arrays.\<close>

datatype missing_opt = MStr string | MList "missing_opt list"

record prereq_result =
  met :: bool
  options :: "missing_opt list"
  singleOption :: "string option"
  isCorequisite :: bool
  res_op :: "string option"

record user_exam =
  program :: string
  exam :: string

text \<open>\<open>r.singleOption || r.options\<close> followed by \<open>.flat()\<close>, for one child result.\<close>

definition flat1 :: "missing_opt list \<Rightarrow> missing_opt list" where
  "flat1 xs = concat (map (\<lambda>x. case x of MStr s \<Rightarrow> [MStr s] | MList ys \<Rightarrow> ys) xs)"

definition orOption :: "prereq_result \<Rightarrow> missing_opt" where
  "orOption r =
     (case singleOption r of
        Some s \<Rightarrow> (if s = [] then MList (options r) else MStr s)
      | None \<Rightarrow> MList (options r))"

definition mathCourses :: "string list" where
  "mathCourses = [''MATH 12'', ''MATH 13'', ''MATH 18'', ''MATH 20'',
                  ''MATH 30'', ''MATH 31'', ''MATH 32'', ''MATH 42'']"

fun evalPrereqNode ::
  "(string \<rightharpoonup> string) \<Rightarrow> user_exam list \<Rightarrow> string set \<Rightarrow> prereq_node \<Rightarrow> prereq_result" where
  "evalPrereqNode aliases userExams takenSet PNull =
     \<lparr>met = True, options = [], singleOption = None, isCorequisite = False, res_op = None\<rparr>"
| "evalPrereqNode aliases userExams takenSet (PNode nop nodes course order txt0) =
     (if nop = ''AND'' then
        (let results = map (evalPrereqNode aliases userExams takenSet) nodes;
             allMet = list_all met results;
             missingOptions = map (\<lambda>r. MList (options r)) (filter (\<lambda>r. \<not> met r) results)
         in \<lparr>met = allMet, options = (if allMet then [] else missingOptions),
              singleOption = None, isCorequisite = False, res_op = Some ''AND''\<rparr>)
      else if nop = ''OR'' then
        (let results = map (evalPrereqNode aliases userExams takenSet) nodes;
             anyMet = list_ex met results;
             allOptions = flat1 (map orOption results)
         in \<lparr>met = anyMet, options = (if anyMet then [] else allOptions),
              singleOption = None, isCorequisite = False, res_op = Some ''OR''\<rparr>)
      else if course \<noteq> [] then
        (if order = ''Concurrent'' then
           \<lparr>met = True, options = [], singleOption = Some course, isCorequisite = True,
            res_op = None\<rparr>
         else
           (let code = normalizeCode course;
                m = (code \<in> takenSet \<or> canonicalizeCode aliases code \<in> takenSet)
            in \<lparr>met = m, options = (if m then [] else [MStr code]), singleOption = Some code,
                 isCorequisite = False, res_op = None\<rparr>))
      else if txt0 \<noteq> [] then
        (if order = ''Concurrent'' then
           \<lparr>met = True, options = [], singleOption = Some txt0, isCorequisite = True,
            res_op = None\<rparr>
         else
           (let txt = toLowerCase txt0 in
            if includesStr txt ''high school chemistry''
               \<or> (includesStr txt ''year of'' \<and> includesStr txt ''chemistry'') then
              (let m = list_ex (\<lambda>e. program e = ''Other'' \<and> exam e = ''HS Chemistry (1 year)'')
                         userExams
               in \<lparr>met = m,
                    options = (if m then [] else [MStr ''HS Chemistry (or take CHEM 11/CHEM 51)'']),
                    singleOption = Some ''HS_CHEMISTRY'', isCorequisite = False, res_op = None\<rparr>)
            else if includesStr txt ''intermediate algebra''
               \<or> (includesStr txt ''algebra'' \<and> includesStr txt ''equivalent'') then
              (let hasMath = list_ex (\<lambda>c. normalizeCode c \<in> takenSet
                                          \<or> canonicalizeCode aliases c \<in> takenSet) mathCourses;
                   hasHSAlgebra = list_ex (\<lambda>e. program e = ''Other''
                                                \<and> exam e = ''Intermediate Algebra'') userExams;
                   m = (hasHSAlgebra \<or> hasMath)
               in \<lparr>met = m, options = (if m then [] else [MStr ''Intermediate Algebra'']),
                    singleOption = Some ''HS_INT_ALGEBRA'', isCorequisite = False, res_op = None\<rparr>)
            else \<lparr>met = True, options = [], singleOption = Some txt, isCorequisite = False,
                  res_op = None\<rparr>))
      else \<lparr>met = True, options = [], singleOption = None, isCorequisite = False,
            res_op = None\<rparr>)"

section \<open>Program requirement sections\<close>

text \<open>
  Unit values are JavaScript numbers; the model takes them as rationals (catalog units are
  multiples of one half, on which the arithmetic of the code is exact). An absent numeric
  field that the code reads through \<open>?? 0\<close> or \<open>|| 0\<close> is the number 0; \<open>min\<close> and
  \<open>max\<close> of a COUNT rule keep their absence, since their defaults are not 0.
\<close>

record any_of_option =
  raw_code :: string
  raw_units :: "rat option"

record catalog_item =
  any_of :: "any_of_option list"

record rule =
  rule_type :: string
  rule_min :: "nat option"
  rule_max :: "nat option"
  min_units :: rat
  min_disciplines :: nat
  allow_from :: "string list"
  per_list_min_units :: "(string \<times> rat) list"

record section_def =
  def_name :: string
  def_rule :: "rule option"
  def_items :: "catalog_item list"

record cross_list_rule =
  cl_type :: string
  applies_to :: "string list"
  cl_per_list_min_units :: "(string \<times> rat) list"
  min_units_total :: rat

record program_detail =
  sections :: "section_def list"
  cross_list_rules :: "cross_list_rule list"

text \<open>
  The working copies made by \<open>indexSectionItems\<close>. An item object is identified by the
  position of its section and its own index (\<open>item_ref\<close>); the flags \<open>matched\<close> and
  \<open>chosen\<close>, which the code writes onto the shared item objects, live in the store
  \<open>chosenOf\<close> of the allocation state: \<open>chosenOf st r = Some pick\<close> stands for
  \<open>matched = true, chosen = pick\<close>.
\<close>

record course_option =
  code :: string
  units :: rat

record item =
  item_ref :: "nat \<times> nat"
  sectionName :: string
  itemIdx :: nat
  item_options :: "course_option list"

record indexed_section =
  name :: string
  rule :: rule
  items :: "item list"

record chosen_course =
  ch_code :: string
  ch_units :: rat
  ch_from :: string

record alloc_state =
  usedSet :: "string set"
  chosenOf :: "nat \<times> nat \<Rightarrow> course_option option"

definition lookup0 :: "(string \<times> rat) list \<Rightarrow> string \<Rightarrow> rat" where
  "lookup0 obj k = (case map_of obj k of None \<Rightarrow> 0 | Some v \<Rightarrow> v)"

definition ruleTypeOf :: "string \<Rightarrow> string" where
  "ruleTypeOf t = toUpperCase (if t = [] then ''ALL'' else t)"

definition sectionIsInCrossList :: "program_detail \<Rightarrow> string \<Rightarrow> bool" where
  "sectionIsInCrossList detail sname =
     list_ex (\<lambda>r. cl_type r = ''CROSS_LIST_UNITS'' \<and> sname \<in> set (applies_to r))
       (cross_list_rules detail)"

definition isAllish :: "program_detail \<Rightarrow> indexed_section \<Rightarrow> bool" where
  "isAllish detail s =
     (let x = ruleTypeOf (rule_type (rule s)) in
      if x = ''ALL'' then True
      else if x = ''LIST'' then \<not> sectionIsInCrossList detail (name s)
      else False)"

text \<open>
  \<open>indexSectionItems\<close>; \<open>coursesIndex\<close> gives the \<open>MinimumCredits\<close> of a catalog course,
  used when an option carries no units.
\<close>

definition indexOption ::
  "(string \<rightharpoonup> string) \<Rightarrow> (string \<rightharpoonup> rat) \<Rightarrow> any_of_option \<Rightarrow> course_option" where
  "indexOption aliases coursesIndex ao =
     (let c = norm_code (raw_code ao) in
      \<lparr>code = c,
       units = (case raw_units ao of
                  Some u \<Rightarrow> u
                | None \<Rightarrow> (case coursesIndex (canonicalizeCode aliases c) of
                             Some credits \<Rightarrow> credits | None \<Rightarrow> 0))\<rparr>)"

definition indexSectionItems ::
  "(string \<rightharpoonup> string) \<Rightarrow> (string \<rightharpoonup> rat) \<Rightarrow> nat \<Rightarrow> string \<Rightarrow> catalog_item list
     \<Rightarrow> item list" where
  "indexSectionItems aliases coursesIndex secIdx sname its =
     map (\<lambda>(idx, it). \<lparr>item_ref = (secIdx, idx), sectionName = sname, itemIdx = idx,
                        item_options = map (indexOption aliases coursesIndex) (any_of it)\<rparr>)
       (zip [0..<length its] its)"

definition findMatchForItem :: "item \<Rightarrow> string set \<Rightarrow> string set \<Rightarrow> course_option option" where
  "findMatchForItem it takenSet used =
     find (\<lambda>opt. code opt \<in> takenSet \<and> code opt \<notin> used) (item_options it)"

definition matched :: "alloc_state \<Rightarrow> item \<Rightarrow> bool" where
  "matched st it = (chosenOf st (item_ref it) \<noteq> None)"

text \<open>The four statements every allocator runs on a pick: mark the item, consume the code.\<close>

definition consume :: "item \<Rightarrow> course_option \<Rightarrow> alloc_state \<Rightarrow> alloc_state" where
  "consume it pick st =
     st\<lparr>usedSet := insert (code pick) (usedSet st),
        chosenOf := (chosenOf st)(item_ref it \<mapsto> pick)\<rparr>"

definition chosenEntry :: "course_option \<Rightarrow> string \<Rightarrow> chosen_course" where
  "chosenEntry pick src = \<lparr>ch_code = code pick, ch_units = units pick, ch_from = src\<rparr>"

definition poolOf :: "(string \<times> item list) list \<Rightarrow> string \<Rightarrow> item list" where
  "poolOf poolsByList listName = (case map_of poolsByList listName of None \<Rightarrow> [] | Some p \<Rightarrow> p)"

subsection \<open>COUNT sections\<close>

fun countLocal ::
  "nat \<Rightarrow> string \<Rightarrow> string set \<Rightarrow> item list \<Rightarrow> chosen_course list \<times> alloc_state
     \<Rightarrow> chosen_course list \<times> alloc_state" where
  "countLocal mx src takenSet [] (chosen, st) = (chosen, st)"
| "countLocal mx src takenSet (it # rest) (chosen, st) =
     (if length chosen \<ge> mx then (chosen, st)
      else case findMatchForItem it takenSet (usedSet st) of
             Some pick \<Rightarrow>
               countLocal mx src takenSet rest (chosen @ [chosenEntry pick src], consume it pick st)
           | None \<Rightarrow> countLocal mx src takenSet rest (chosen, st))"

fun countBorrowPool ::
  "nat \<Rightarrow> string \<Rightarrow> string set \<Rightarrow> item list \<Rightarrow> chosen_course list \<times> alloc_state
     \<Rightarrow> chosen_course list \<times> alloc_state" where
  "countBorrowPool need listName takenSet [] (chosen, st) = (chosen, st)"
| "countBorrowPool need listName takenSet (it # rest) (chosen, st) =
     (if length chosen \<ge> need then (chosen, st)
      else if matched st it then countBorrowPool need listName takenSet rest (chosen, st)
      else case findMatchForItem it takenSet (usedSet st) of
             Some pick \<Rightarrow>
               countBorrowPool need listName takenSet rest
                 (chosen @ [chosenEntry pick listName], consume it pick st)
           | None \<Rightarrow> countBorrowPool need listName takenSet rest (chosen, st))"

fun countBorrow ::
  "nat \<Rightarrow> (string \<times> item list) list \<Rightarrow> string set \<Rightarrow> string list
     \<Rightarrow> chosen_course list \<times> alloc_state \<Rightarrow> chosen_course list \<times> alloc_state" where
  "countBorrow need poolsByList takenSet [] (chosen, st) = (chosen, st)"
| "countBorrow need poolsByList takenSet (listName # rest) (chosen, st) =
     (if length chosen \<ge> need then (chosen, st)
      else countBorrow need poolsByList takenSet rest
             (countBorrowPool need listName takenSet (poolOf poolsByList listName) (chosen, st)))"

record count_result =
  cr_chosen :: "chosen_course list"
  cr_need :: nat
  cr_max :: nat

definition satisfyCountSection ::
  "indexed_section \<Rightarrow> item list \<Rightarrow> (string \<times> item list) list \<Rightarrow> string set \<Rightarrow> alloc_state
     \<Rightarrow> count_result \<times> alloc_state" where
  "satisfyCountSection s sectionItems poolsByList takenSet st =
     (let need = (case rule_min (rule s) of None \<Rightarrow> 1 | Some n \<Rightarrow> n);
          mx = (case rule_max (rule s) of None \<Rightarrow> need | Some m \<Rightarrow> m);
          (chosen1, st1) = countLocal mx (name s) takenSet sectionItems ([], st);
          (chosen2, st2) = countBorrow need poolsByList takenSet (allow_from (rule s)) (chosen1, st1)
      in (\<lparr>cr_chosen = chosen2, cr_need = need, cr_max = mx\<rparr>, st2))"

subsection \<open>UNITS sections\<close>

definition isUpperAZ :: "char \<Rightarrow> bool" where
  "isUpperAZ c = (c \<in> set ''ABCDEFGHIJKLMNOPQRSTUVWXYZ'')"

text \<open>
  \<open>disciplineFromPrefix\<close>; \<open>prefixAliases\<close> is
  \<open>state.courseAliases.prefix_alias_to_canonical_prefix\<close>.
\<close>

definition disciplineFromPrefix ::
  "(string \<rightharpoonup> string) \<Rightarrow> (string \<rightharpoonup> string) \<Rightarrow> string \<Rightarrow> string" where
  "disciplineFromPrefix aliases prefixAliases c =
     (let canon = toUpperCase (canonicalizeCode aliases c);
          prefix = filter isUpperAZ (takeWhile (\<lambda>x. \<not> isSpace x) canon)
      in case prefixAliases prefix of None \<Rightarrow> prefix | Some p \<Rightarrow> (if p = [] then prefix else p))"

text \<open>A JavaScript \<open>Set\<close> of strings in insertion order.\<close>

definition setAdd :: "string \<Rightarrow> string list \<Rightarrow> string list" where
  "setAdd x xs = (if x \<in> set xs then xs else xs @ [x])"

definition setOfList :: "string list \<Rightarrow> string list" where
  "setOfList xs = fold setAdd xs []"

record units_acc =
  chosen :: "chosen_course list"
  gotUnits :: rat
  ust :: alloc_state

definition takePick :: "course_option \<Rightarrow> item \<Rightarrow> string \<Rightarrow> units_acc \<Rightarrow> units_acc" where
  "takePick pick it src acc =
     \<lparr>chosen = chosen acc @ [chosenEntry pick src],
      gotUnits = gotUnits acc + units pick,
      ust = consume it pick (ust acc)\<rparr>"

text \<open>
  The generators \<open>availableFromList\<close> and \<open>availableFromSection\<close> followed by the filter
  of the caller: the first unmatched item whose match passes the filter. Every caller stops
  at the first item it takes, so the items are inspected in one state.
\<close>

fun firstAvailable ::
  "(course_option \<Rightarrow> bool) \<Rightarrow> string set \<Rightarrow> alloc_state \<Rightarrow> item list
     \<Rightarrow> (course_option \<times> item) option" where
  "firstAvailable filterFn takenSet st [] = None"
| "firstAvailable filterFn takenSet st (it # rest) =
     (if matched st it then firstAvailable filterFn takenSet st rest
      else case findMatchForItem it takenSet (usedSet st) of
             Some pick \<Rightarrow>
               (if filterFn pick then Some (pick, it)
                else firstAvailable filterFn takenSet st rest)
           | None \<Rightarrow> firstAvailable filterFn takenSet st rest)"

definition pickOneFromList ::
  "(string \<times> item list) list \<Rightarrow> string set \<Rightarrow> string \<Rightarrow> units_acc \<Rightarrow> bool \<times> units_acc" where
  "pickOneFromList poolsByList takenSet listName acc =
     (case firstAvailable (\<lambda>_. True) takenSet (ust acc) (poolOf poolsByList listName) of
        None \<Rightarrow> (False, acc)
      | Some (pick, it) \<Rightarrow> (True, takePick pick it listName acc))"

fun pickFromAllow ::
  "(course_option \<Rightarrow> bool) \<Rightarrow> (string \<times> item list) list \<Rightarrow> string set \<Rightarrow> string list
     \<Rightarrow> units_acc \<Rightarrow> bool \<times> units_acc" where
  "pickFromAllow filterFn poolsByList takenSet [] acc = (False, acc)"
| "pickFromAllow filterFn poolsByList takenSet (listName # rest) acc =
     (case firstAvailable filterFn takenSet (ust acc) (poolOf poolsByList listName) of
        Some (pick, it) \<Rightarrow> (True, takePick pick it listName acc)
      | None \<Rightarrow> pickFromAllow filterFn poolsByList takenSet rest acc)"

definition pickWithFilter ::
  "(course_option \<Rightarrow> bool) \<Rightarrow> indexed_section \<Rightarrow> item list \<Rightarrow> (string \<times> item list) list
     \<Rightarrow> string set \<Rightarrow> units_acc \<Rightarrow> bool \<times> units_acc" where
  "pickWithFilter filterFn s sectionItems poolsByList takenSet acc =
     (case firstAvailable filterFn takenSet (ust acc) sectionItems of
        Some (pick, it) \<Rightarrow> (True, takePick pick it (name s) acc)
      | None \<Rightarrow> pickFromAllow filterFn poolsByList takenSet (allow_from (rule s)) acc)"

text \<open>
  The \<open>while\<close> loops of \<open>satisfyUnitsSection\<close> end because every round that goes on has
  marked one more item of the section or of its pools.
\<close>

definition unmatchedCount :: "alloc_state \<Rightarrow> item list \<Rightarrow> nat" where
  "unmatchedCount st its = length (filter (\<lambda>it. \<not> matched st it) its)"

definition reachableItems :: "indexed_section \<Rightarrow> item list \<Rightarrow> (string \<times> item list) list \<Rightarrow> item list" where
  "reachableItems s sectionItems poolsByList =
     sectionItems @ concat (map (poolOf poolsByList) (allow_from (rule s)))"

lemma firstAvailable_Some:
  "firstAvailable filterFn takenSet st its = Some (pick, it) \<Longrightarrow> it \<in> set its \<and> \<not> matched st it"
  by (induction its) (auto split: if_splits option.splits)

lemma consume_unmatchedCount:
  assumes "it \<in> set its" and "\<not> matched st it"
  shows "unmatchedCount (consume it pick st) its < unmatchedCount st its"
proof -
  let ?P = "\<lambda>x. \<not> matched st x" and ?Q = "\<lambda>x. \<not> matched (consume it pick st) x"
  have imp: "\<And>x. ?Q x \<Longrightarrow> ?P x" by (auto simp: matched_def consume_def split: if_splits)
  have eq: "filter ?Q its = filter ?Q (filter ?P its)"
    using imp by (auto intro: filter_cong)
  have "it \<in> set (filter ?P its)" using assms by simp
  moreover have "\<not> ?Q it" by (simp add: matched_def consume_def)
  ultimately have "length (filter ?Q (filter ?P its)) < length (filter ?P its)"
    by (rule length_filter_less)
  thus ?thesis using eq by (simp add: unmatchedCount_def)
qed

lemma pickFromAllow_decreases:
  assumes "pickFromAllow filterFn poolsByList takenSet ls acc = (True, acc')"
    and "set (concat (map (poolOf poolsByList) ls)) \<subseteq> set its"
  shows "unmatchedCount (ust acc') its < unmatchedCount (ust acc) its"
  using assms
proof (induction ls)
  case Nil
  then show ?case by simp
next
  case (Cons l ls)
  show ?case
  proof (cases "firstAvailable filterFn takenSet (ust acc) (poolOf poolsByList l)")
    case None
    with Cons show ?thesis by simp
  next
    case (Some a)
    obtain pick it where a: "a = (pick, it)" by (cases a)
    from Some a have m: "it \<in> set (poolOf poolsByList l)" "\<not> matched (ust acc) it"
      using firstAvailable_Some by blast+
    from Cons.prems(2) m(1) have "it \<in> set its" by auto
    moreover from Cons.prems(1) Some a have "acc' = takePick pick it l acc" by simp
    ultimately show ?thesis
      using consume_unmatchedCount[OF _ m(2)] by (simp add: takePick_def)
  qed
qed

lemma pickWithFilter_decreases:
  assumes "pickWithFilter filterFn s sectionItems poolsByList takenSet acc = (True, acc')"
  shows "unmatchedCount (ust acc') (reachableItems s sectionItems poolsByList)
         < unmatchedCount (ust acc) (reachableItems s sectionItems poolsByList)"
proof (cases "firstAvailable filterFn takenSet (ust acc) sectionItems")
  case None
  with assms have "pickFromAllow filterFn poolsByList takenSet (allow_from (rule s)) acc = (True, acc')"
    by (simp add: pickWithFilter_def)
  thus ?thesis
    by (rule pickFromAllow_decreases) (auto simp: reachableItems_def)
next
  case (Some a)
  obtain pick it where a: "a = (pick, it)" by (cases a)
  from Some a have m: "it \<in> set sectionItems" "\<not> matched (ust acc) it"
    using firstAvailable_Some by blast+
  from assms Some a have "acc' = takePick pick it (name s) acc"
    by (simp add: pickWithFilter_def)
  moreover from m(1) have "it \<in> set (reachableItems s sectionItems poolsByList)"
    by (simp add: reachableItems_def)
  ultimately show ?thesis
    using consume_unmatchedCount[OF _ m(2)] by (simp add: takePick_def)
qed

lemma pickOneFromList_decreases:
  assumes "pickOneFromList poolsByList takenSet listName acc = (True, acc')"
  shows "unmatchedCount (ust acc') (poolOf poolsByList listName)
         < unmatchedCount (ust acc) (poolOf poolsByList listName)"
proof (cases "firstAvailable (\<lambda>_. True) takenSet (ust acc) (poolOf poolsByList listName)")
  case None
  with assms show ?thesis by (simp add: pickOneFromList_def)
next
  case (Some a)
  obtain pick it where a: "a = (pick, it)" by (cases a)
  from Some a have m: "it \<in> set (poolOf poolsByList listName)" "\<not> matched (ust acc) it"
    using firstAvailable_Some by blast+
  from assms Some a have "acc' = takePick pick it listName acc"
    by (simp add: pickOneFromList_def)
  thus ?thesis using consume_unmatchedCount[OF m] by (simp add: takePick_def)
qed

definition disciplinesOf ::
  "(string \<rightharpoonup> string) \<Rightarrow> (string \<rightharpoonup> string) \<Rightarrow> chosen_course list \<Rightarrow> string list" where
  "disciplinesOf aliases prefixAliases cs =
     setOfList (map (\<lambda>c. disciplineFromPrefix aliases prefixAliases (ch_code c)) cs)"

text \<open>The loop of the branch \<open>minDisciplines > 0\<close>.\<close>

function disciplineLoop ::
  "(string \<rightharpoonup> string) \<Rightarrow> (string \<rightharpoonup> string) \<Rightarrow> indexed_section \<Rightarrow> item list
     \<Rightarrow> (string \<times> item list) list \<Rightarrow> string set \<Rightarrow> nat \<Rightarrow> rat \<Rightarrow> string list \<Rightarrow> units_acc
     \<Rightarrow> units_acc" where
  "disciplineLoop aliases prefixAliases s sectionItems poolsByList takenSet minDisciplines
       minUnitsTotal disciplineSet acc =
     (if length disciplineSet < minDisciplines
         \<and> (gotUnits acc < minUnitsTotal \<or> length disciplineSet < minDisciplines) then
        (let prevSize = length disciplineSet;
             r = pickWithFilter
                   (\<lambda>pick. disciplineFromPrefix aliases prefixAliases (code pick) \<notin> set disciplineSet)
                   s sectionItems poolsByList takenSet acc
         in if \<not> fst r then snd r
            else (let disciplineSet' = disciplinesOf aliases prefixAliases (chosen (snd r))
                  in if length disciplineSet' = prevSize then snd r
                     else disciplineLoop aliases prefixAliases s sectionItems poolsByList takenSet
                            minDisciplines minUnitsTotal disciplineSet' (snd r)))
      else acc)"
  by pat_completeness auto
termination
proof (relation "measure (\<lambda>(aliases, prefixAliases, s, sectionItems, poolsByList, takenSet,
                            minDisciplines, minUnitsTotal, disciplineSet, acc).
                    unmatchedCount (ust acc) (reachableItems s sectionItems poolsByList))")
  show "wf (measure (\<lambda>(aliases, prefixAliases, s, sectionItems, poolsByList, takenSet,
                            minDisciplines, minUnitsTotal, disciplineSet, acc).
                    unmatchedCount (ust acc) (reachableItems s sectionItems poolsByList)))"
    by simp
next
  fix aliases prefixAliases :: "string \<rightharpoonup> string" and s :: indexed_section
    and sectionItems :: "item list" and poolsByList :: "(string \<times> item list) list"
    and takenSet :: "string set" and minDisciplines :: nat and minUnitsTotal :: rat
    and disciplineSet :: "string list" and acc :: units_acc and prevSize :: nat
    and r :: "bool \<times> units_acc" and disciplineSet' :: "string list"
  assume r: "r = pickWithFilter
                   (\<lambda>pick. disciplineFromPrefix aliases prefixAliases (code pick) \<notin> set disciplineSet)
                   s sectionItems poolsByList takenSet acc"
    and f: "\<not> \<not> fst r"
  from r f have "pickWithFilter
                   (\<lambda>pick. disciplineFromPrefix aliases prefixAliases (code pick) \<notin> set disciplineSet)
                   s sectionItems poolsByList takenSet acc = (True, snd r)"
    by (metis prod.collapse)
  from pickWithFilter_decreases[OF this]
  show "((aliases, prefixAliases, s, sectionItems, poolsByList, takenSet, minDisciplines,
          minUnitsTotal, disciplineSet', snd r),
         (aliases, prefixAliases, s, sectionItems, poolsByList, takenSet, minDisciplines,
          minUnitsTotal, disciplineSet, acc))
        \<in> measure (\<lambda>(aliases, prefixAliases, s, sectionItems, poolsByList, takenSet,
                            minDisciplines, minUnitsTotal, disciplineSet, acc).
                    unmatchedCount (ust acc) (reachableItems s sectionItems poolsByList))"
    by simp
qed

declare disciplineLoop.simps [simp del]

text \<open>The loop of the branch \<open>minDisciplines = 0\<close>: local items in order, no look at \<open>matched\<close>.\<close>

fun unitsLocal ::
  "rat \<Rightarrow> string \<Rightarrow> string set \<Rightarrow> item list \<Rightarrow> units_acc \<Rightarrow> units_acc" where
  "unitsLocal minUnitsTotal src takenSet [] acc = acc"
| "unitsLocal minUnitsTotal src takenSet (it # rest) acc =
     (if gotUnits acc \<ge> minUnitsTotal then acc
      else case findMatchForItem it takenSet (usedSet (ust acc)) of
             Some pick \<Rightarrow> unitsLocal minUnitsTotal src takenSet rest (takePick pick it src acc)
           | None \<Rightarrow> unitsLocal minUnitsTotal src takenSet rest acc)"

definition haveFrom :: "string \<Rightarrow> chosen_course list \<Rightarrow> rat" where
  "haveFrom listName cs = sum_list (map ch_units (filter (\<lambda>c. ch_from c = listName) cs))"

text \<open>Enforcing one per-list minimum: \<open>while (have < need)\<close> with \<open>pickOneFromList\<close>.\<close>

function perListLoop ::
  "(string \<times> item list) list \<Rightarrow> string set \<Rightarrow> string \<Rightarrow> rat \<Rightarrow> units_acc \<Rightarrow> units_acc" where
  "perListLoop poolsByList takenSet listName need acc =
     (if haveFrom listName (chosen acc) < need then
        (let r = pickOneFromList poolsByList takenSet listName acc
         in if \<not> fst r then snd r
            else perListLoop poolsByList takenSet listName need (snd r))
      else acc)"
  by pat_completeness auto
termination
proof (relation "measure (\<lambda>(poolsByList, takenSet, listName, need, acc).
                    unmatchedCount (ust acc) (poolOf poolsByList listName))")
  show "wf (measure (\<lambda>(poolsByList, takenSet, listName, need, acc).
                    unmatchedCount (ust acc) (poolOf poolsByList listName)))"
    by simp
next
  fix poolsByList :: "(string \<times> item list) list" and takenSet :: "string set"
    and listName :: string and need :: rat and acc :: units_acc and r :: "bool \<times> units_acc"
  assume r: "r = pickOneFromList poolsByList takenSet listName acc" and f: "\<not> \<not> fst r"
  from r f have "pickOneFromList poolsByList takenSet listName acc = (True, snd r)"
    by (metis prod.collapse)
  from pickOneFromList_decreases[OF this]
  show "((poolsByList, takenSet, listName, need, snd r),
         (poolsByList, takenSet, listName, need, acc))
        \<in> measure (\<lambda>(poolsByList, takenSet, listName, need, acc).
                    unmatchedCount (ust acc) (poolOf poolsByList listName))"
    by simp
qed

declare perListLoop.simps [simp del]

fun perListAll ::
  "(string \<times> item list) list \<Rightarrow> string set \<Rightarrow> (string \<times> rat) list \<Rightarrow> string list
     \<Rightarrow> units_acc \<Rightarrow> units_acc" where
  "perListAll poolsByList takenSet perListMin [] acc = acc"
| "perListAll poolsByList takenSet perListMin (listName # rest) acc =
     perListAll poolsByList takenSet perListMin rest
       (perListLoop poolsByList takenSet listName (lookup0 perListMin listName) acc)"

text \<open>Filling to the total: \<open>while (gotUnits < minUnitsTotal)\<close> with an unfiltered pick.\<close>

function topUp ::
  "indexed_section \<Rightarrow> item list \<Rightarrow> (string \<times> item list) list \<Rightarrow> string set \<Rightarrow> rat
     \<Rightarrow> units_acc \<Rightarrow> units_acc" where
  "topUp s sectionItems poolsByList takenSet minUnitsTotal acc =
     (if gotUnits acc < minUnitsTotal then
        (let r = pickWithFilter (\<lambda>_. True) s sectionItems poolsByList takenSet acc
         in if \<not> fst r then snd r
            else topUp s sectionItems poolsByList takenSet minUnitsTotal (snd r))
      else acc)"
  by pat_completeness auto
termination
proof (relation "measure (\<lambda>(s, sectionItems, poolsByList, takenSet, minUnitsTotal, acc).
                    unmatchedCount (ust acc) (reachableItems s sectionItems poolsByList))")
  show "wf (measure (\<lambda>(s, sectionItems, poolsByList, takenSet, minUnitsTotal, acc).
                    unmatchedCount (ust acc) (reachableItems s sectionItems poolsByList)))"
    by simp
next
  fix s :: indexed_section and sectionItems :: "item list"
    and poolsByList :: "(string \<times> item list) list" and takenSet :: "string set"
    and minUnitsTotal :: rat and acc :: units_acc and r :: "bool \<times> units_acc"
  assume r: "r = pickWithFilter (\<lambda>_. True) s sectionItems poolsByList takenSet acc"
    and f: "\<not> \<not> fst r"
  from r f have "pickWithFilter (\<lambda>_. True) s sectionItems poolsByList takenSet acc = (True, snd r)"
    by (metis prod.collapse)
  from pickWithFilter_decreases[OF this]
  show "((s, sectionItems, poolsByList, takenSet, minUnitsTotal, snd r),
         (s, sectionItems, poolsByList, takenSet, minUnitsTotal, acc))
        \<in> measure (\<lambda>(s, sectionItems, poolsByList, takenSet, minUnitsTotal, acc).
                    unmatchedCount (ust acc) (reachableItems s sectionItems poolsByList))"
    by simp
qed

declare topUp.simps [simp del]

text \<open>
  The entries of \<open>missing\<close>. The code renders them as text (\<open>need courses from at least n
  disciplines (currently k)\<close>, \<open>x more units from L\<close>, \<open>x more units overall\<close>, the amounts
  through \<open>toFixed(1)\<close>); the model keeps the numbers.
\<close>

datatype missing_reason =
    NeedDisciplines nat nat
  | MoreUnitsFrom rat string
  | MoreUnitsOverall rat

record units_result =
  ur_chosen :: "chosen_course list"
  ur_gotUnits :: rat
  ur_missing :: "missing_reason list"
  ur_minUnits :: rat

definition unitsMissing ::
  "(string \<rightharpoonup> string) \<Rightarrow> (string \<rightharpoonup> string) \<Rightarrow> rule \<Rightarrow> units_acc \<Rightarrow> missing_reason list" where
  "unitsMissing aliases prefixAliases r acc =
     (let disciplineSet = disciplinesOf aliases prefixAliases (chosen acc) in
      (if min_disciplines r > 0 \<and> length disciplineSet < min_disciplines r
       then [NeedDisciplines (min_disciplines r) (length disciplineSet)] else [])
      @ concat (map (\<lambda>listName.
                   let need = lookup0 (per_list_min_units r) listName;
                       have = haveFrom listName (chosen acc)
                   in if have < need then [MoreUnitsFrom (need - have) listName] else [])
                 (allow_from r))
      @ (if gotUnits acc < min_units r then [MoreUnitsOverall (min_units r - gotUnits acc)] else []))"

definition satisfyUnitsSection ::
  "(string \<rightharpoonup> string) \<Rightarrow> (string \<rightharpoonup> string) \<Rightarrow> indexed_section \<Rightarrow> item list
     \<Rightarrow> (string \<times> item list) list \<Rightarrow> string set \<Rightarrow> alloc_state \<Rightarrow> units_result \<times> alloc_state" where
  "satisfyUnitsSection aliases prefixAliases s sectionItems poolsByList takenSet st =
     (let minUnitsTotal = min_units (rule s);
          minDisciplines = min_disciplines (rule s);
          allow = allow_from (rule s);
          perListMin = per_list_min_units (rule s);
          acc0 = \<lparr>chosen = [], gotUnits = 0, ust = st\<rparr>;
          acc1 = (if minDisciplines > 0
                  then disciplineLoop aliases prefixAliases s sectionItems poolsByList takenSet
                         minDisciplines minUnitsTotal [] acc0
                  else unitsLocal minUnitsTotal (name s) takenSet sectionItems acc0);
          acc2 = perListAll poolsByList takenSet perListMin allow acc1;
          acc3 = topUp s sectionItems poolsByList takenSet minUnitsTotal acc2
      in (\<lparr>ur_chosen = chosen acc3, ur_gotUnits = gotUnits acc3,
           ur_missing = unitsMissing aliases prefixAliases (rule s) acc3,
           ur_minUnits = minUnitsTotal\<rparr>, ust acc3))"

subsection \<open>CROSS_LIST_UNITS\<close>

text \<open>
  A JavaScript object with string keys, in insertion order: assigning to a key that exists
  keeps its position. (Names that are canonical array indices, which JavaScript enumerates
  first, are not section names.)
\<close>

fun objSet :: "string \<Rightarrow> 'v \<Rightarrow> (string \<times> 'v) list \<Rightarrow> (string \<times> 'v) list" where
  "objSet k v [] = [(k, v)]"
| "objSet k v ((k', v') # rest) = (if k = k' then (k, v) # rest else (k', v') # objSet k v rest)"

record hit =
  h_code :: string
  h_units :: rat
  itemRef :: "nat \<times> nat"

record cross_state =
  usedCodes :: "string set"
  cs_usedSet :: "string set"
  earnedBySection :: "(string \<times> rat) list"
  chosenBySection :: "(string \<times> hit list) list"
  rawChosen :: "nat \<times> nat \<Rightarrow> (string \<times> rat) option"

record cross_result =
  cr_done :: bool
  totalUnits :: rat
  minTotal :: rat
  cr_earnedBySection :: "(string \<times> rat) list"
  perMin :: "(string \<times> rat) list"
  cr_chosenBySection :: "(string \<times> hit list) list"

definition hitsOf :: "(string \<times> hit list) list \<Rightarrow> string \<Rightarrow> hit list" where
  "hitsOf obj k = (case map_of obj k of None \<Rightarrow> [] | Some hs \<Rightarrow> hs)"

text \<open>The options of one catalog section, each with a reference to its catalog item.\<close>

definition sectionOptions :: "nat \<Rightarrow> section_def \<Rightarrow> hit list" where
  "sectionOptions secIdx s =
     concat (map (\<lambda>(idx, it).
                map (\<lambda>opt. \<lparr>h_code = toUpperCase (trim (raw_code opt)),
                            h_units = (case raw_units opt of None \<Rightarrow> 0 | Some u \<Rightarrow> u),
                            itemRef = (secIdx, idx)\<rparr>) (any_of it))
              (zip [0..<length (def_items s)] (def_items s)))"

definition buildSectionPool :: "section_def list \<Rightarrow> string list \<Rightarrow> (string \<times> hit list) list" where
  "buildSectionPool secs applies =
     fold (\<lambda>(secIdx, s) pool. objSet (def_name s) (sectionOptions secIdx s) pool)
       (filter (\<lambda>(secIdx, s). def_name s \<in> set applies) (zip [0..<length secs] secs)) []"

text \<open>\<open>hits.sort((a, b) => b.units - a.units)\<close>: a stable sort, highest units first.\<close>

definition sortByUnitsDesc :: "('a \<Rightarrow> rat) \<Rightarrow> 'a list \<Rightarrow> 'a list" where
  "sortByUnitsDesc u xs = sort_key (\<lambda>x. - u x) xs"

definition buildHits :: "string set \<Rightarrow> (string \<times> hit list) list \<Rightarrow> (string \<times> hit list) list" where
  "buildHits takenSet sectionPool =
     map (\<lambda>(n, arr). (n, sortByUnitsDesc h_units (filter (\<lambda>x. h_code x \<in> takenSet) arr)))
       sectionPool"

definition crossConsume :: "string \<Rightarrow> hit \<Rightarrow> cross_state \<Rightarrow> cross_state" where
  "crossConsume n h cs =
     cs\<lparr>usedCodes := insert (h_code h) (usedCodes cs),
        cs_usedSet := insert (h_code h) (cs_usedSet cs),
        earnedBySection := objSet n (lookup0 (earnedBySection cs) n + h_units h) (earnedBySection cs),
        rawChosen := (rawChosen cs)(itemRef h \<mapsto> (h_code h, h_units h)),
        chosenBySection := objSet n (hitsOf (chosenBySection cs) n @ [h]) (chosenBySection cs)\<rparr>"

text \<open>Pass 1 for one pool: highest-unit hits until the minimum of the pool is earned.\<close>

fun perListPass :: "string \<Rightarrow> rat \<Rightarrow> hit list \<Rightarrow> cross_state \<Rightarrow> cross_state" where
  "perListPass n need [] cs = cs"
| "perListPass n need (h # hs) cs =
     (if lookup0 (earnedBySection cs) n \<ge> need then cs
      else if h_code h \<in> usedCodes cs \<or> h_code h \<in> cs_usedSet cs then perListPass n need hs cs
      else perListPass n need hs (crossConsume n h cs))"

fun perListPasses ::
  "(string \<times> rat) list \<Rightarrow> (string \<times> hit list) list \<Rightarrow> string list \<Rightarrow> cross_state
     \<Rightarrow> cross_state" where
  "perListPasses perMinObj hitsBySection [] cs = cs"
| "perListPasses perMinObj hitsBySection (n # rest) cs =
     perListPasses perMinObj hitsBySection rest
       (perListPass n (lookup0 perMinObj n) (hitsOf hitsBySection n) cs)"

definition buildLeftovers ::
  "(string \<times> hit list) list \<Rightarrow> string list \<Rightarrow> cross_state \<Rightarrow> (hit \<times> string) list" where
  "buildLeftovers hitsBySection names cs =
     sortByUnitsDesc (\<lambda>l. h_units (fst l))
       (concat (map (\<lambda>n. map (\<lambda>h. (h, n))
                            (filter (\<lambda>h. h_code h \<notin> usedCodes cs \<and> h_code h \<notin> cs_usedSet cs)
                               (hitsOf hitsBySection n)))
                  names))"

text \<open>Pass 2: the leftovers in order until the total is reached.\<close>

fun totalPass :: "rat \<Rightarrow> (hit \<times> string) list \<Rightarrow> rat \<times> cross_state \<Rightarrow> rat \<times> cross_state" where
  "totalPass minTot [] (tot, cs) = (tot, cs)"
| "totalPass minTot ((h, n) # rest) (tot, cs) =
     (if tot \<ge> minTot then (tot, cs)
      else totalPass minTot rest (tot + h_units h, crossConsume n h cs))"

definition evalCrossListUnits ::
  "program_detail \<Rightarrow> string set \<Rightarrow> string set
     \<Rightarrow> (cross_result \<times> string set \<times> (nat \<times> nat \<Rightarrow> (string \<times> rat) option)) option" where
  "evalCrossListUnits detail takenSet used =
     (case find (\<lambda>r. cl_type r = ''CROSS_LIST_UNITS'') (cross_list_rules detail) of
        None \<Rightarrow> None
      | Some r \<Rightarrow>
          (let perMinObj = cl_per_list_min_units r;
               minTot = min_units_total r;
               sectionPool = buildSectionPool (sections detail) (applies_to r);
               names = map fst sectionPool;
               hitsBySection = buildHits takenSet sectionPool;
               cs0 = \<lparr>usedCodes = {}, cs_usedSet = used,
                      earnedBySection = map (\<lambda>n. (n, 0)) names,
                      chosenBySection = map (\<lambda>n. (n, [])) names,
                      rawChosen = Map.empty\<rparr>;
               cs1 = perListPasses perMinObj hitsBySection names cs0;
               total1 = sum_list (map snd (earnedBySection cs1));
               leftovers = buildLeftovers hitsBySection names cs1;
               (total2, cs2) = totalPass minTot leftovers (total1, cs1);
               perListOK = list_all (\<lambda>n. lookup0 (earnedBySection cs2) n \<ge> lookup0 perMinObj n) names
           in Some (\<lparr>cr_done = (perListOK \<and> total2 \<ge> minTot), totalUnits = total2, minTotal = minTot,
                     cr_earnedBySection = earnedBySection cs2, perMin = perMinObj,
                     cr_chosenBySection = chosenBySection cs2\<rparr>,
                    cs_usedSet cs2, rawChosen cs2)))"

subsection \<open>evaluateProgram\<close>

text \<open>
  The parts of the global \<open>state\<close> that the program evaluator reads: the two alias tables,
  the \<open>MinimumCredits\<close> of the catalog courses, and the course codes that
  \<open>buildExamEquivalencyCodes(state.userExams)\<close> returns.
\<close>

record app_state =
  alias_to_canonical_codes :: "string \<rightharpoonup> string"
  prefix_alias_to_canonical_prefix :: "string \<rightharpoonup> string"
  coursesIndex :: "string \<rightharpoonup> rat"
  examEquivalencyCodes :: "string list"

record transcript_row =
  row_code :: string
  isPass :: bool

record transcript =
  completed :: "transcript_row list"
  ip :: "transcript_row list"
  pl :: "transcript_row list"

text \<open>\<open>/^GE\s|General Education/i\<close>.\<close>

definition isGESection :: "string \<Rightarrow> bool" where
  "isGESection nm =
     (let l = toLowerCase nm in
      (case l of g # e # c # _ \<Rightarrow> g = CHR ''g'' \<and> e = CHR ''e'' \<and> isSpace c | _ \<Rightarrow> False)
      \<or> includesStr l ''general education'')"

definition isWordChar :: "char \<Rightarrow> bool" where
  "isWordChar c =
     (c \<in> set ''ABCDEFGHIJKLMNOPQRSTUVWXYZabcdefghijklmnopqrstuvwxyz0123456789_'')"

definition isDigit :: "char \<Rightarrow> bool" where
  "isDigit c = (c \<in> set ''0123456789'')"

text \<open>The group of \<open>/^\s*Select\s+(\w+)/i\<close>, when the name matches.\<close>

definition selectWord :: "string \<Rightarrow> string option" where
  "selectWord nm =
     (let s = dropWhile isSpace nm in
      if startsWith (toLowerCase s) ''select'' then
        (case drop 6 s of
           [] \<Rightarrow> None
         | c # r \<Rightarrow>
             (if isSpace c then
                (let w = takeWhile isWordChar (dropWhile isSpace r)
                 in if w = [] then None else Some w)
              else None))
      else None)"

definition parseDigits :: "string \<Rightarrow> nat" where
  "parseDigits s =
     foldl (\<lambda>n c. 10 * n + (case map_of (zip ''0123456789'' [0, 1, 2, 3, 4, 5, 6, 7, 8, 9]) c of
                              Some d \<Rightarrow> d | None \<Rightarrow> 0)) 0 s"

definition wordsToNum :: "string \<Rightarrow> nat option" where
  "wordsToNum w =
     (if w = [] then None
      else (let s = toLowerCase w in
            if list_all isDigit s then Some (parseDigits s)
            else map_of [(''one'', 1), (''two'', 2), (''three'', 3), (''four'', 4), (''five'', 5),
                         (''six'', 6), (''seven'', 7), (''eight'', 8), (''nine'', 9), (''ten'', 10)] s))"

definition coerceSelectCountRule :: "section_def \<Rightarrow> section_def" where
  "coerceSelectCountRule sec =
     (if def_name sec = [] then sec
      else case selectWord (def_name sec) of
             None \<Rightarrow> sec
           | Some w \<Rightarrow>
               (if ruleTypeOf (case def_rule sec of None \<Rightarrow> [] | Some r \<Rightarrow> rule_type r) = ''LIST''
                then (case wordsToNum w of
                        None \<Rightarrow> sec
                      | Some n \<Rightarrow>
                          (if n = 0 then sec
                           else sec\<lparr>def_rule :=
                                  Some \<lparr>rule_type = ''COUNT'', rule_min = Some n, rule_max = Some n,
                                        min_units = 0, min_disciplines = 0, allow_from = [],
                                        per_list_min_units = []\<rparr>\<rparr>))
                else sec))"

definition defaultRule :: rule where
  "defaultRule = \<lparr>rule_type = ''ALL'', rule_min = None, rule_max = None, min_units = 0,
                   min_disciplines = 0, allow_from = [], per_list_min_units = []\<rparr>"

definition buildSections :: "app_state \<Rightarrow> program_detail \<Rightarrow> indexed_section list" where
  "buildSections state detail =
     map (\<lambda>(secIdx, s0).
            let sec = coerceSelectCountRule s0 in
            \<lparr>name = def_name sec,
             rule = (case def_rule sec of None \<Rightarrow> defaultRule | Some r \<Rightarrow> r),
             items = indexSectionItems (alias_to_canonical_codes state) (coursesIndex state)
                       secIdx (def_name sec) (def_items sec)\<rparr>)
       (zip [0..<length (sections detail)] (sections detail))"

definition buildTakenSet :: "app_state \<Rightarrow> transcript \<Rightarrow> bool \<Rightarrow> string set" where
  "buildTakenSet state tr countPlanned =
     (let takenCodesRaw = map row_code (filter isPass (completed tr))
                          @ (if countPlanned then map row_code (ip tr) @ map row_code (pl tr) else [])
      in set (map (\<lambda>c. norm_code (canonicalizeCode (alias_to_canonical_codes state) c)) takenCodesRaw)
         \<union> set (examEquivalencyCodes state))"

record atoms =
  requiredAtomCount :: int
  metAtomCount :: int
  ast :: alloc_state

text \<open>ALL sections, and LIST sections outside the cross-list pools: one atom per item.\<close>

fun allItems :: "string set \<Rightarrow> item list \<Rightarrow> atoms \<Rightarrow> atoms" where
  "allItems takenSet [] a = a"
| "allItems takenSet (it # rest) a =
     (let a1 = a\<lparr>requiredAtomCount := requiredAtomCount a + 1\<rparr> in
      case findMatchForItem it takenSet (usedSet (ast a)) of
        Some pick \<Rightarrow>
          allItems takenSet rest
            (a1\<lparr>metAtomCount := metAtomCount a1 + 1, ast := consume it pick (ast a1)\<rparr>)
      | None \<Rightarrow> allItems takenSet rest a1)"

fun allSections :: "bool \<Rightarrow> string set \<Rightarrow> indexed_section list \<Rightarrow> atoms \<Rightarrow> atoms" where
  "allSections skipGESections takenSet [] a = a"
| "allSections skipGESections takenSet (s # rest) a =
     (if skipGESections \<and> isGESection (name s) then allSections skipGESections takenSet rest a
      else allSections skipGESections takenSet rest (allItems takenSet (items s) a))"

text \<open>COUNT sections: \<open>min\<close> atoms, \<open>min(chosen.length, min)\<close> of them met.\<close>

definition countAtoms ::
  "(string \<times> item list) list \<Rightarrow> string set \<Rightarrow> indexed_section \<Rightarrow> atoms \<Rightarrow> atoms" where
  "countAtoms poolsByList takenSet s a =
     (let need = (case rule_min (rule s) of None \<Rightarrow> 1 | Some n \<Rightarrow> n);
          (res, st') = satisfyCountSection s (items s) poolsByList takenSet (ast a)
      in \<lparr>requiredAtomCount = requiredAtomCount a + int need,
          metAtomCount = metAtomCount a + int (min (length (cr_chosen res)) need),
          ast = st'\<rparr>)"

fun countSections ::
  "bool \<Rightarrow> (string \<times> item list) list \<Rightarrow> string set \<Rightarrow> indexed_section list \<Rightarrow> atoms \<Rightarrow> atoms" where
  "countSections skipGESections poolsByList takenSet [] a = a"
| "countSections skipGESections poolsByList takenSet (s # rest) a =
     (if skipGESections \<and> isGESection (name s)
      then countSections skipGESections poolsByList takenSet rest a
      else countSections skipGESections poolsByList takenSet rest
             (countAtoms poolsByList takenSet s a))"

text \<open>
  UNITS sections: \<open>estimatedCoursesNeeded = Math.ceil(minUnits / avgUnits)\<close> atoms, where
  \<open>avgUnits\<close> is the mean of \<open>c.units || 3\<close> over the chosen courses, or 3 without any.
\<close>

definition avgUnits :: "chosen_course list \<Rightarrow> rat" where
  "avgUnits cs =
     (if length cs > 0
      then sum_list (map (\<lambda>c. if ch_units c = 0 then 3 else ch_units c) cs) / of_nat (length cs)
      else 3)"

definition estimatedCoursesNeeded :: "units_result \<Rightarrow> int" where
  "estimatedCoursesNeeded res = \<lceil>ur_minUnits res / avgUnits (ur_chosen res)\<rceil>"

definition unitsAtoms ::
  "app_state \<Rightarrow> (string \<times> item list) list \<Rightarrow> string set \<Rightarrow> indexed_section \<Rightarrow> atoms \<Rightarrow> atoms" where
  "unitsAtoms state poolsByList takenSet s a =
     (let (res, st') = satisfyUnitsSection (alias_to_canonical_codes state)
                         (prefix_alias_to_canonical_prefix state) s (items s) poolsByList takenSet
                         (ast a)
      in \<lparr>requiredAtomCount = requiredAtomCount a + estimatedCoursesNeeded res,
          metAtomCount = metAtomCount a
                         + min (int (length (ur_chosen res))) (estimatedCoursesNeeded res),
          ast = st'\<rparr>)"

fun unitsSections ::
  "app_state \<Rightarrow> bool \<Rightarrow> (string \<times> item list) list \<Rightarrow> string set \<Rightarrow> indexed_section list
     \<Rightarrow> atoms \<Rightarrow> atoms" where
  "unitsSections state skipGESections poolsByList takenSet [] a = a"
| "unitsSections state skipGESections poolsByList takenSet (s # rest) a =
     (if skipGESections \<and> isGESection (name s)
      then unitsSections state skipGESections poolsByList takenSet rest a
      else unitsSections state skipGESections poolsByList takenSet rest
             (unitsAtoms state poolsByList takenSet s a))"

text \<open>The atoms of the cross-list result: one for the total, one per entry of \<open>perMin\<close>.\<close>

definition crossAtoms :: "cross_result option \<Rightarrow> atoms \<Rightarrow> atoms" where
  "crossAtoms cross a =
     (case cross of
        None \<Rightarrow> a
      | Some c \<Rightarrow>
          a\<lparr>requiredAtomCount := requiredAtomCount a + 1 + int (length (perMin c)),
            metAtomCount := metAtomCount a
              + (if totalUnits c \<ge> minTotal c then 1 else 0)
              + int (length (filter (\<lambda>(lname, need). lookup0 (cr_earnedBySection c) lname \<ge> need)
                               (perMin c)))\<rparr>)"

record per_list_status =
  pls_list :: string
  pls_have :: rat
  pls_need :: rat

record cross_finding =
  cf_applies_to :: "string list"
  met_total :: bool
  total_units :: rat
  need_total :: rat
  per_list_min_status :: "per_list_status list"

text \<open>One finding per rule whose type reads \<open>CROSS_LIST_UNITS\<close> in any letter case.\<close>

definition matchedUnits :: "alloc_state \<Rightarrow> item list \<Rightarrow> rat" where
  "matchedUnits st its =
     sum_list (map (\<lambda>it. case chosenOf st (item_ref it) of None \<Rightarrow> 0 | Some c \<Rightarrow> units c) its)"

definition crossFinding :: "indexed_section list \<Rightarrow> alloc_state \<Rightarrow> cross_list_rule \<Rightarrow> cross_finding" where
  "crossFinding secs st r =
     (let lists = applies_to r;
          involved = filter (\<lambda>s. name s \<in> set lists) secs;
          total = sum_list (map (\<lambda>s. matchedUnits st (items s)) involved);
          perListUnits = fold (\<lambda>s obj. objSet (name s) (lookup0 obj (name s) + matchedUnits st (items s)) obj)
                           involved (fold (\<lambda>lname obj. objSet lname 0 obj) lists []);
          perListShort = filter (\<lambda>(lname, mn). lookup0 perListUnits lname < mn)
                           (cl_per_list_min_units r)
      in \<lparr>cf_applies_to = lists, met_total = (total \<ge> min_units_total r), total_units = total,
          need_total = min_units_total r,
          per_list_min_status =
            map (\<lambda>(lname, mn). \<lparr>pls_list = lname, pls_have = lookup0 perListUnits lname,
                                 pls_need = mn\<rparr>) perListShort\<rparr>)"

definition crossFindings ::
  "program_detail \<Rightarrow> indexed_section list \<Rightarrow> alloc_state \<Rightarrow> cross_finding list" where
  "crossFindings detail secs st =
     map (crossFinding secs st)
       (filter (\<lambda>r. toUpperCase (cl_type r) = ''CROSS_LIST_UNITS'') (cross_list_rules detail))"

text \<open>\<open>Math.round\<close> rounds halves up.\<close>

definition mathRound :: "rat \<Rightarrow> int" where
  "mathRound x = \<lfloor>x + 1 / 2\<rfloor>"

text \<open>
  The result of \<open>evaluateProgram\<close> without the rendered \<open>details\<close> rows and the header
  text, and with the allocation state the call ends in.
\<close>

record program_result =
  pct :: rat
  requiredItems :: int
  satisfied :: int
  cross_list_checks :: "cross_finding list"
  crossListSummary :: "cross_result option"
  isComplete :: "bool option"
  final_state :: alloc_state
  final_sections :: "indexed_section list"

definition evaluateProgram ::
  "app_state \<Rightarrow> program_detail \<Rightarrow> transcript \<Rightarrow> bool \<Rightarrow> bool \<Rightarrow> program_result" where
  "evaluateProgram state detail tr countPlanned skipGESections =
     (let takenSet = buildTakenSet state tr countPlanned;
          secs = buildSections state detail;
          poolsByList = fold (\<lambda>s obj. objSet (name s) (items s) obj) secs [];
          crossRes = evalCrossListUnits detail takenSet {};
          cross = map_option fst crossRes;
          used0 = (case crossRes of None \<Rightarrow> {} | Some (c, used, raw) \<Rightarrow> used);
          a0 = \<lparr>requiredAtomCount = 0, metAtomCount = 0,
                ast = \<lparr>usedSet = used0, chosenOf = Map.empty\<rparr>\<rparr>;
          a1 = allSections skipGESections takenSet (filter (isAllish detail) secs) a0;
          a2 = countSections skipGESections poolsByList takenSet
                 (filter (\<lambda>x. ruleTypeOf (rule_type (rule x)) = ''COUNT''
                               \<and> \<not> sectionIsInCrossList detail (name x)) secs) a1;
          a3 = unitsSections state skipGESections poolsByList takenSet
                 (filter (\<lambda>x. ruleTypeOf (rule_type (rule x)) = ''UNITS'') secs) a2;
          a4 = crossAtoms cross a3;
          hasAnyItems = list_ex (\<lambda>sec. length (items sec) > 0) secs;
          percent = (if requiredAtomCount a4 \<noteq> 0
                     then mathRound (of_int (metAtomCount a4) / of_int (requiredAtomCount a4) * 100)
                     else (if hasAnyItems then 0 else 100))
      in \<lparr>pct = of_int percent / 100,
          requiredItems = requiredAtomCount a4,
          satisfied = metAtomCount a4,
          cross_list_checks = crossFindings detail secs (ast a4),
          crossListSummary = cross,
          isComplete = (case cross of None \<Rightarrow> None
                        | Some c \<Rightarrow> Some (metAtomCount a4 = requiredAtomCount a4)),
          final_state = ast a4,
          final_sections = secs\<rparr>)"

section \<open>General-education evaluation\<close>



text \<open>
  What \<open>evaluateGE\<close> computes before it walks the tree: \<open>bucketMap\<close> and \<open>attrMap\<close> (each
  set as the list of its members), the units of the exam pseudo-courses \<open>examUnits\<close>, the
  candidates of every area \<open>areaCandidates\<close>, and \<open>MinimumCredits\<close> of the catalog courses.
\<close>

record ge_env =
  bucketMap :: "(string \<times> string list) list"
  attrMap :: "(string \<times> string list) list"
  examUnits :: "string \<rightharpoonup> rat"
  minimumCredits :: "string \<rightharpoonup> rat"
  areaCandidates :: "(string \<times> string list) list"

text \<open>The allocation state of one call: the set \<open>used\<close> and the object \<open>alloc\<close> (fields
  \<open>ge_used\<close> and \<open>ge_alloc\<close>).\<close>

record ge_state =
  ge_used :: "string set"
  ge_alloc :: "(string \<times> string list) list"

definition listOf :: "(string \<times> string list) list \<Rightarrow> string \<Rightarrow> string list" where
  "listOf obj k = (case map_of obj k of None \<Rightarrow> [] | Some xs \<Rightarrow> xs)"

text \<open>\<open>[...new Set(xs)]\<close>: the members in order of first occurrence.\<close>

definition uniq :: "string list \<Rightarrow> string list" where
  "uniq xs = fold (\<lambda>x acc. if x \<in> set acc then acc else acc @ [x]) xs []"


definition unitsFor :: "ge_env \<Rightarrow> string \<Rightarrow> rat" where
  "unitsFor env c =
     (case examUnits env c of
        Some u \<Rightarrow> u
      | None \<Rightarrow> (case minimumCredits env c of Some m \<Rightarrow> m | None \<Rightarrow> 0))"























text \<open>The OR branch: trial, score, restore, and the choice of the best child.\<close>

record score =
  s_units :: rat
  s_courses :: nat

record 'n choice =
  c_child :: 'n
  c_ok :: bool
  c_score :: score
  c_snap :: ge_state

definition snapshot :: "ge_state \<Rightarrow> ge_state" where
  "snapshot st = \<lparr>ge_used = ge_used st, ge_alloc = ge_alloc st\<rparr>"

definition restore :: "ge_state \<Rightarrow> ge_state \<Rightarrow> ge_state" where
  "restore snap st = st\<lparr>ge_used := ge_used snap, ge_alloc := ge_alloc snap\<rparr>"

definition deltaScore ::
  "ge_env \<Rightarrow> (string \<times> string list) list \<Rightarrow> (string \<times> string list) list \<Rightarrow> score" where
  "deltaScore env before after =
     (let areas = uniq (map fst after @ map fst before);
          new = concat (map (\<lambda>a. filter (\<lambda>c. c \<notin> set (listOf before a)) (listOf after a)) areas)
      in \<lparr>s_units = sum_list (map (unitsFor env) new), s_courses = length new\<rparr>)"

definition better :: "'n choice \<Rightarrow> 'n choice \<Rightarrow> bool" where
  "better a b \<longleftrightarrow>
     (c_ok b \<and> \<not> c_ok a)
     \<or> (c_ok b = c_ok a
         \<and> (s_units (c_score b) > s_units (c_score a)
             \<or> (s_units (c_score b) = s_units (c_score a)
                 \<and> s_courses (c_score b) > s_courses (c_score a))))"

text \<open>
  The log of the writes to \<open>orGroups\<close> and \<open>orChoice\<close>: the label of an OR group, the areas
  of its children and the chosen area. The walk only writes these two objects.
\<close>

record or_record =
  or_label :: string
  or_kidAreas :: "string list"
  or_chosenArea :: "string option"

type_synonym 'n walker = "'n \<Rightarrow> ge_state \<Rightarrow> bool \<times> ge_state \<times> or_record list"

definition orTrial ::
  "ge_env \<Rightarrow> 'n walker \<Rightarrow> 'n \<Rightarrow> 'n choice option \<times> ge_state \<times> or_record list
     \<Rightarrow> 'n choice option \<times> ge_state \<times> or_record list" where
  "orTrial env w child acc =
     (case acc of (best, st, lg) \<Rightarrow>
        (let snap = snapshot st;
             (ok, st', lg') = w child st;
             sc = deltaScore env (ge_alloc snap) (ge_alloc st');
             ch = \<lparr>c_child = child, c_ok = ok, c_score = sc, c_snap = snap\<rparr>;
             best' = (case best of None \<Rightarrow> ch | Some a \<Rightarrow> (if better a ch then ch else a))
         in (Some best', restore snap st', lg @ lg')))"

definition orTrials ::
  "ge_env \<Rightarrow> 'n walker \<Rightarrow> 'n list \<Rightarrow> 'n choice option \<times> ge_state \<times> or_record list
     \<Rightarrow> 'n choice option \<times> ge_state \<times> or_record list" where
  "orTrials env w kids acc = fold (orTrial env w) kids acc"

text \<open>Walking a list of children in order, collecting the results.\<close>

definition walkOne ::
  "'n walker \<Rightarrow> 'n \<Rightarrow> bool list \<times> ge_state \<times> or_record list \<Rightarrow> bool list \<times> ge_state \<times> or_record list" where
  "walkOne w n acc =
     (case acc of (out, st, lg) \<Rightarrow>
        (let (ok, st', lg') = w n st in (out @ [ok], st', lg @ lg')))"

definition walkAll ::
  "'n walker \<Rightarrow> 'n list \<Rightarrow> bool list \<times> ge_state \<times> or_record list
     \<Rightarrow> bool list \<times> ge_state \<times> or_record list" where
  "walkAll w ns acc = fold (walkOne w) ns acc"




text \<open>
  The walker is passed to \<open>orTrials\<close> and \<open>walkAll\<close>, which apply it to members of
  their list only; the child that the trials return is one of the children.
\<close>

lemma orTrial_cong_step:
  assumes "\<And>s. w c s = w' c s"
  shows "orTrial env w c = orTrial env w' c"
proof (rule ext)
  fix acc :: "'a choice option \<times> ge_state \<times> or_record list"
  obtain best st lg where a: "acc = (best, st, lg)" by (cases acc)
  show "orTrial env w c acc = orTrial env w' c acc"
    unfolding orTrial_def a prod.case assms ..
qed

lemma orTrials_cong [fundef_cong]:
  assumes "kids = kids'" and "acc = acc'"
    and "\<And>c s. c \<in> set kids' \<Longrightarrow> w c s = w' c s"
  shows "orTrials env w kids acc = orTrials env w' kids' acc'"
  unfolding orTrials_def assms(1) assms(2)
proof (rule fold_cong[OF refl refl])
  fix c assume "c \<in> set kids'"
  with assms(3) have "\<And>s. w c s = w' c s" by blast
  thus "orTrial env w c = orTrial env w' c" by (rule orTrial_cong_step)
qed

lemma walkOne_cong_step:
  assumes "\<And>s. w c s = w' c s"
  shows "walkOne w c = walkOne w' c"
proof (rule ext)
  fix acc :: "bool list \<times> ge_state \<times> or_record list"
  obtain out st lg where a: "acc = (out, st, lg)" by (cases acc)
  show "walkOne w c acc = walkOne w' c acc"
    unfolding walkOne_def a prod.case assms ..
qed

lemma walkAll_cong [fundef_cong]:
  assumes "ns = ns'" and "acc = acc'"
    and "\<And>c s. c \<in> set ns' \<Longrightarrow> w c s = w' c s"
  shows "walkAll w ns acc = walkAll w' ns' acc'"
  unfolding walkAll_def assms(1) assms(2)
proof (rule fold_cong[OF refl refl])
  fix c assume "c \<in> set ns'"
  with assms(3) have "\<And>s. w c s = w' c s" by blast
  thus "walkOne w c = walkOne w' c" by (rule walkOne_cong_step)
qed









section \<open>Notions used in the proofs\<close>



text \<open>
  The accumulator of a UNITS section is within one course of a target when nothing is chosen
  and no unit counted, or the units counted stay below the target plus the units of the
  course chosen last.
\<close>

definition withinOne :: "rat \<Rightarrow> units_acc \<Rightarrow> bool" where
  "withinOne minU acc \<longleftrightarrow>
     (chosen acc = [] \<and> gotUnits acc = 0)
     \<or> (chosen acc \<noteq> [] \<and> gotUnits acc < minU + ch_units (last (chosen acc)))"







subsection \<open>Specification predicates for the GE area picker\<close>






subsection \<open>Specification predicates for the OR branch of the GE walk\<close>








subsection \<open>Specification predicates for LIST sections\<close>

text \<open>The names that \<open>coerceSelectCountRule\<close> reads as a count: \<open>Select n\<close> with \<open>n\<close> a positive number.\<close>

definition readsAsCount :: "string \<Rightarrow> bool" where
  "readsAsCount nm =
     (case selectWord nm of
        None \<Rightarrow> False
      | Some w \<Rightarrow> (case wordsToNum w of None \<Rightarrow> False | Some n \<Rightarrow> n \<noteq> 0))"

text \<open>A LIST section outside the cross-list pools whose name does not read as a count.\<close>

definition plainList :: "program_detail \<Rightarrow> section_def \<Rightarrow> bool" where
  "plainList detail s0 \<longleftrightarrow>
     ruleTypeOf (case def_rule s0 of None \<Rightarrow> [] | Some r \<Rightarrow> rule_type r) = ''LIST''
     \<and> \<not> sectionIsInCrossList detail (def_name s0)
     \<and> \<not> readsAsCount (def_name s0)"

text \<open>The section, and the program, with the rule type of these sections set to ALL.\<close>

definition asAll :: "section_def \<Rightarrow> section_def" where
  "asAll s0 = s0\<lparr>def_rule := map_option (\<lambda>r. r\<lparr>rule_type := ''ALL''\<rparr>) (def_rule s0)\<rparr>"


text \<open>The same retyping on an indexed section.\<close>

definition retypeAll :: "program_detail \<Rightarrow> indexed_section \<Rightarrow> indexed_section" where
  "retypeAll detail s =
     (if ruleTypeOf (rule_type (rule s)) = ''LIST'' \<and> \<not> sectionIsInCrossList detail (name s)
      then s\<lparr>rule := (rule s)\<lparr>rule_type := ''ALL''\<rparr>\<rparr> else s)"




section \<open>Facts about the cross-list allocator\<close>































subsection \<open>The GE area picker\<close>













subsection \<open>The OR branch of the GE walk\<close>















section \<open>Facts about matching and the COUNT allocator\<close>








lemma findMatch_Some:
  "findMatchForItem it takenSet u = Some pick \<Longrightarrow>
     pick \<in> set (item_options it) \<and> code pick \<in> takenSet \<and> code pick \<notin> u"
  by (auto simp: findMatchForItem_def find_Some_iff)







section \<open>Facts about the UNITS allocator\<close>

lemma withinOne_takePick:
  "gotUnits acc < minU \<Longrightarrow> withinOne minU (takePick pick it src acc)"
  by (simp add: withinOne_def takePick_def chosenEntry_def)

lemma unitsLocal_withinOne:
  "withinOne minU acc \<Longrightarrow> withinOne minU (unitsLocal minU src takenSet its acc)"
proof (induction its arbitrary: acc)
  case Nil
  then show ?case by simp
next
  case (Cons it rest)
  show ?case
  proof (cases "gotUnits acc \<ge> minU")
    case True
    with Cons.prems show ?thesis by simp
  next
    case False
    hence lt: "gotUnits acc < minU" by simp
    show ?thesis
    proof (cases "findMatchForItem it takenSet (usedSet (ust acc))")
      case None
      with False Cons show ?thesis by simp
    next
      case (Some pick)
      from withinOne_takePick[OF lt] have "withinOne minU (takePick pick it src acc)" .
      from Cons.IH[OF this] Some False show ?thesis by simp
    qed
  qed
qed

lemma unitsLocal_nonneg:
  assumes "\<forall>it\<in>set its. \<forall>opt\<in>set (item_options it). 0 \<le> units opt"
    and "\<forall>c\<in>set (chosen acc). 0 \<le> ch_units c"
  shows "\<forall>c\<in>set (chosen (unitsLocal minU src takenSet its acc)). 0 \<le> ch_units c"
  using assms
proof (induction its arbitrary: acc)
  case Nil
  then show ?case by simp
next
  case (Cons it rest)
  show ?case
  proof (cases "gotUnits acc \<ge> minU")
    case True
    with Cons.prems show ?thesis by simp
  next
    case False
    show ?thesis
    proof (cases "findMatchForItem it takenSet (usedSet (ust acc))")
      case None
      with False Cons show ?thesis by simp
    next
      case (Some pick)
      hence "pick \<in> set (item_options it)" using findMatch_Some by blast
      with Cons.prems(1) have "0 \<le> units pick" by simp
      with Cons.prems(2) have "\<forall>c\<in>set (chosen (takePick pick it src acc)). 0 \<le> ch_units c"
        by (simp add: takePick_def chosenEntry_def)
      moreover from Cons.prems(1) have "\<forall>it\<in>set rest. \<forall>opt\<in>set (item_options it). 0 \<le> units opt"
        by simp
      ultimately have "\<forall>c\<in>set (chosen (unitsLocal minU src takenSet rest (takePick pick it src acc))). 0 \<le> ch_units c"
        by (rule Cons.IH[rotated])
      with Some False show ?thesis by simp
    qed
  qed
qed

lemma pickFromAllow_cases:
  "pickFromAllow filterFn poolsByList takenSet ls acc = (found, acc') \<Longrightarrow>
     (\<not> found \<and> acc' = acc) \<or> (found \<and> (\<exists>pick it src. acc' = takePick pick it src acc))"
proof (induction ls)
  case Nil
  then show ?case by auto
next
  case (Cons l ls)
  show ?case
  proof (cases "firstAvailable filterFn takenSet (ust acc) (poolOf poolsByList l)")
    case None
    with Cons show ?thesis by simp
  next
    case (Some a)
    obtain pick it where "a = (pick, it)" by (cases a)
    with Some Cons.prems show ?thesis by auto
  qed
qed

lemma pickWithFilter_cases:
  assumes "pickWithFilter filterFn s sectionItems poolsByList takenSet acc = (found, acc')"
  shows "(\<not> found \<and> acc' = acc) \<or> (found \<and> (\<exists>pick it src. acc' = takePick pick it src acc))"
proof (cases "firstAvailable filterFn takenSet (ust acc) sectionItems")
  case None
  with assms have "pickFromAllow filterFn poolsByList takenSet (allow_from (rule s)) acc = (found, acc')"
    by (simp add: pickWithFilter_def)
  thus ?thesis by (rule pickFromAllow_cases)
next
  case (Some a)
  obtain pick it where "a = (pick, it)" by (cases a)
  with Some assms show ?thesis by (auto simp: pickWithFilter_def)
qed

lemma topUp_withinOne:
  "withinOne minU acc \<Longrightarrow> withinOne minU (topUp s sectionItems poolsByList takenSet minU acc)"
proof (induction s sectionItems poolsByList takenSet minU acc rule: topUp.induct)
  case (1 s sectionItems poolsByList takenSet minUnitsTotal acc)
  show ?case
  proof (cases "gotUnits acc < minUnitsTotal")
    case False
    with "1.prems" show ?thesis by (subst topUp.simps) simp
  next
    case True
    let ?r = "pickWithFilter (\<lambda>_. True) s sectionItems poolsByList takenSet acc"
    have c: "(\<not> fst ?r \<and> snd ?r = acc) \<or> (fst ?r \<and> (\<exists>pick it src. snd ?r = takePick pick it src acc))"
      by (rule pickWithFilter_cases[of "\<lambda>_. True" s sectionItems poolsByList takenSet acc]) simp
    show ?thesis
    proof (cases "fst ?r")
      case False
      with c True "1.prems" show ?thesis by (subst topUp.simps) (simp add: Let_def)
    next
      case f: True
      with c obtain pick it src where "snd ?r = takePick pick it src acc" by blast
      with withinOne_takePick[OF True] have "withinOne minUnitsTotal (snd ?r)" by simp
      from "1.IH"[OF True refl _ this] f have "withinOne minUnitsTotal
          (topUp s sectionItems poolsByList takenSet minUnitsTotal (snd ?r))" by simp
      with True f show ?thesis by (subst topUp.simps) (simp add: Let_def)
    qed
  qed
qed

lemma sum_list_nonneg_rat: "\<forall>x\<in>set xs. (0::rat) \<le> x \<Longrightarrow> 0 \<le> sum_list xs"
  by (induction xs) auto

lemma haveFrom_nonneg: "\<forall>c\<in>set cs. 0 \<le> ch_units c \<Longrightarrow> 0 \<le> haveFrom l cs"
  unfolding haveFrom_def by (rule sum_list_nonneg_rat) simp

lemma perListLoop_idle:
  "need \<le> haveFrom l (chosen acc) \<Longrightarrow> perListLoop poolsByList takenSet l need acc = acc"
  by (subst perListLoop.simps) simp

lemma perListAll_idle:
  assumes "\<forall>l\<in>set ls. lookup0 perListMin l \<le> 0" and "\<forall>c\<in>set (chosen acc). 0 \<le> ch_units c"
  shows "perListAll poolsByList takenSet perListMin ls acc = acc"
  using assms(1)
proof (induction ls)
  case Nil
  then show ?case by simp
next
  case (Cons l ls)
  from Cons.prems have "lookup0 perListMin l \<le> 0" by simp
  from order_trans[OF this haveFrom_nonneg[OF assms(2)]]
  have "lookup0 perListMin l \<le> haveFrom l (chosen acc)" .
  from perListLoop_idle[OF this] Cons show ?case by simp
qed

subsection \<open>LIST sections outside the cross-list pools\<close>










lemma asAll_fields [simp]:
  "def_name (asAll s0) = def_name s0" "def_items (asAll s0) = def_items s0"
  by (simp_all add: asAll_def)

lemma retypeAll_fields [simp]:
  "name (retypeAll detail s) = name s" "items (retypeAll detail s) = items s"
  by (simp_all add: retypeAll_def)




lemma ruleTypeOf_neq:
  "''ALL'' \<noteq> ''COUNT''" "''LIST'' \<noteq> ''COUNT''" "''ALL'' \<noteq> ''UNITS''" "''LIST'' \<noteq> ''UNITS''"
  "''ALL'' \<noteq> ''LIST''"
  by simp_all













lemma sectionOptions_asAll:
  "sectionOptions i (if plainList detail s then asAll s else s) = sectionOptions i s"
  by (simp add: sectionOptions_def)







section \<open>One course, one requirement (C1)\<close>

text \<open>
  C1 fails on the code. Two sections \<open>X\<close> and \<open>Y\<close> pooled under one \<open>CROSS_LIST_UNITS\<close> rule
  with \<open>min_units_total = 6\<close> and no per-list minimum both list the 3-unit course \<open>A 1\<close>,
  which is taken. Pass 1 has nothing to do; the leftovers hold \<open>A 1\<close> once per pool, and
  pass 2, which does not look at the consumed codes again, takes both entries: \<open>A 1\<close> is
  chosen for \<open>X\<close> and for \<open>Y\<close>, its units count twice (6 of 6), and the program is
  reported complete.
\<close>

theorem evalCrossListUnits_consumes_twice:
  "map_option fst
     (evalCrossListUnits
        \<lparr>sections =
         [\<lparr>def_name = ''X'', def_rule = Some \<lparr>rule_type = ''LIST'', rule_min = None, rule_max = None, min_units = 0,
                min_disciplines = 0, allow_from = [], per_list_min_units = []\<rparr>,
           def_items = [\<lparr>any_of = [\<lparr>raw_code = ''A 1'', raw_units = Some 3\<rparr>]\<rparr>]\<rparr>,
          \<lparr>def_name = ''Y'', def_rule = Some \<lparr>rule_type = ''LIST'', rule_min = None, rule_max = None, min_units = 0,
                min_disciplines = 0, allow_from = [], per_list_min_units = []\<rparr>,
           def_items = [\<lparr>any_of = [\<lparr>raw_code = ''A 1'', raw_units = Some 3\<rparr>]\<rparr>]\<rparr>],
       cross_list_rules =
         [\<lparr>cl_type = ''CROSS_LIST_UNITS'', applies_to = [''X'', ''Y''],
           cl_per_list_min_units = [], min_units_total = 6\<rparr>]\<rparr>
        {''A 1''} {})
   = Some \<lparr>cr_done = True, totalUnits = 6, minTotal = 6,
             cr_earnedBySection = [(''X'', 3), (''Y'', 3)], perMin = [],
             cr_chosenBySection =
               [(''X'', [\<lparr>h_code = ''A 1'', h_units = 3, itemRef = (0, 0)\<rparr>]),
                (''Y'', [\<lparr>h_code = ''A 1'', h_units = 3, itemRef = (1, 0)\<rparr>])]\<rparr>
   \<and> isComplete (evaluateProgram
        \<lparr>alias_to_canonical_codes = Map.empty, prefix_alias_to_canonical_prefix = Map.empty,
       coursesIndex = Map.empty, examEquivalencyCodes = []\<rparr>
        \<lparr>sections =
         [\<lparr>def_name = ''X'', def_rule = Some \<lparr>rule_type = ''LIST'', rule_min = None, rule_max = None, min_units = 0,
                min_disciplines = 0, allow_from = [], per_list_min_units = []\<rparr>,
           def_items = [\<lparr>any_of = [\<lparr>raw_code = ''A 1'', raw_units = Some 3\<rparr>]\<rparr>]\<rparr>,
          \<lparr>def_name = ''Y'', def_rule = Some \<lparr>rule_type = ''LIST'', rule_min = None, rule_max = None, min_units = 0,
                min_disciplines = 0, allow_from = [], per_list_min_units = []\<rparr>,
           def_items = [\<lparr>any_of = [\<lparr>raw_code = ''A 1'', raw_units = Some 3\<rparr>]\<rparr>]\<rparr>],
       cross_list_rules =
         [\<lparr>cl_type = ''CROSS_LIST_UNITS'', applies_to = [''X'', ''Y''],
           cl_per_list_min_units = [], min_units_total = 6\<rparr>]\<rparr>
        \<lparr>completed = [\<lparr>row_code = ''A 1'', isPass = True\<rparr>], ip = [], pl = []\<rparr> False False)
     = Some True"
  by code_simp

section \<open>Several cross-list rules (C10)\<close>

lemma evalCrossListUnits_first:
  assumes "find (\<lambda>r. cl_type r = ''CROSS_LIST_UNITS'') (cross_list_rules detail) = Some r"
  shows "evalCrossListUnits detail takenSet used
         = evalCrossListUnits (detail\<lparr>cross_list_rules := [r]\<rparr>) takenSet used"
proof -
  from assms have "cl_type r = ''CROSS_LIST_UNITS''" by (auto simp: find_Some_iff)
  hence "find (\<lambda>r. cl_type r = ''CROSS_LIST_UNITS'') [r] = Some r" by simp
  with assms show ?thesis by (simp add: evalCrossListUnits_def)
qed

lemma evalCrossListUnits_perMin:
  assumes "find (\<lambda>r. cl_type r = ''CROSS_LIST_UNITS'') (cross_list_rules detail) = Some r"
  shows "\<exists>c used' raw. evalCrossListUnits detail takenSet used = Some (c, used', raw)
           \<and> perMin c = cl_per_list_min_units r \<and> minTotal c = min_units_total r"
  using assms by (simp add: evalCrossListUnits_def Let_def split: prod.split)

lemma length_filter_mono:
  "(\<And>x. P x \<Longrightarrow> Q x) \<Longrightarrow> length (filter P xs) \<le> length (filter Q xs)"
  by (induction xs) auto

text \<open>
  C10. Let \<open>r\<close> be the first rule of \<open>cross_list_rules\<close> whose type is \<open>CROSS_LIST_UNITS\<close>.
  The cross-list allocation of the program is the allocation of the program that has \<open>r\<close>
  as its only rule, and so is the cross-list summary of \<open>evaluateProgram\<close>; the atoms it
  adds are one for the total and one per entry of \<open>per_list_min_units\<close> of \<open>r\<close>, and adding
  them leaves the allocation state alone. The findings \<open>cross_list_checks\<close> list every rule
  whose type reads \<open>CROSS_LIST_UNITS\<close>, the later ones included.
\<close>

theorem cross_list_first_rule_only:
  assumes first: "find (\<lambda>r. cl_type r = ''CROSS_LIST_UNITS'') (cross_list_rules detail) = Some r"
  shows "evalCrossListUnits detail takenSet used
           = evalCrossListUnits (detail\<lparr>cross_list_rules := [r]\<rparr>) takenSet used
     \<and> crossListSummary (evaluateProgram state detail tr countPlanned skipGESections)
           = crossListSummary (evaluateProgram state (detail\<lparr>cross_list_rules := [r]\<rparr>) tr
                                 countPlanned skipGESections)
     \<and> (\<exists>c used' raw. evalCrossListUnits detail takenSet used = Some (c, used', raw)
           \<and> requiredAtomCount (crossAtoms (Some c) a)
               = requiredAtomCount a + 1 + int (length (cl_per_list_min_units r))
           \<and> ast (crossAtoms (Some c) a) = ast a)
     \<and> map cf_applies_to (cross_list_checks (evaluateProgram state detail tr countPlanned skipGESections))
           = map applies_to (filter (\<lambda>x. toUpperCase (cl_type x) = ''CROSS_LIST_UNITS'')
                               (cross_list_rules detail))
     \<and> length (filter (\<lambda>x. cl_type x = ''CROSS_LIST_UNITS'') (cross_list_rules detail))
           \<le> length (cross_list_checks (evaluateProgram state detail tr countPlanned skipGESections))"
proof (intro conjI)
  show e: "evalCrossListUnits detail takenSet used
           = evalCrossListUnits (detail\<lparr>cross_list_rules := [r]\<rparr>) takenSet used"
    using first by (rule evalCrossListUnits_first)
  show "crossListSummary (evaluateProgram state detail tr countPlanned skipGESections)
           = crossListSummary (evaluateProgram state (detail\<lparr>cross_list_rules := [r]\<rparr>) tr
                                 countPlanned skipGESections)"
    using evalCrossListUnits_first[OF first, of "buildTakenSet state tr countPlanned" "{}"]
    by (simp add: evaluateProgram_def Let_def)
  from evalCrossListUnits_perMin[OF first, of takenSet used] obtain c used' raw where
    c: "evalCrossListUnits detail takenSet used = Some (c, used', raw)"
       "perMin c = cl_per_list_min_units r" by blast
  have "requiredAtomCount (crossAtoms (Some c) a)
               = requiredAtomCount a + 1 + int (length (cl_per_list_min_units r))"
    "ast (crossAtoms (Some c) a) = ast a"
    by (simp_all add: crossAtoms_def c(2))
  with c(1) show "\<exists>c used' raw. evalCrossListUnits detail takenSet used = Some (c, used', raw)
           \<and> requiredAtomCount (crossAtoms (Some c) a)
               = requiredAtomCount a + 1 + int (length (cl_per_list_min_units r))
           \<and> ast (crossAtoms (Some c) a) = ast a" by blast
  show m: "map cf_applies_to (cross_list_checks (evaluateProgram state detail tr countPlanned skipGESections))
           = map applies_to (filter (\<lambda>x. toUpperCase (cl_type x) = ''CROSS_LIST_UNITS'')
                               (cross_list_rules detail))"
    by (simp add: evaluateProgram_def Let_def crossFindings_def crossFinding_def o_def)
  have up: "toUpperCase ''CROSS_LIST_UNITS'' = ''CROSS_LIST_UNITS''"
    by (simp add: toUpperCase_def)
  have "length (filter (\<lambda>x. cl_type x = ''CROSS_LIST_UNITS'') (cross_list_rules detail))
        \<le> length (filter (\<lambda>x. toUpperCase (cl_type x) = ''CROSS_LIST_UNITS'') (cross_list_rules detail))"
    by (rule length_filter_mono) (simp add: up)
  also have "\<dots> = length (cross_list_checks (evaluateProgram state detail tr countPlanned skipGESections))"
    using arg_cong[OF m, of length] by simp
  finally show "length (filter (\<lambda>x. cl_type x = ''CROSS_LIST_UNITS'') (cross_list_rules detail))
           \<le> length (cross_list_checks (evaluateProgram state detail tr countPlanned skipGESections))" .
qed

theorem cross_list_first_rule_only_witness:
  "crossListSummary (evaluateProgram
      \<lparr>alias_to_canonical_codes = Map.empty, prefix_alias_to_canonical_prefix = Map.empty,
       coursesIndex = Map.empty, examEquivalencyCodes = []\<rparr>
      \<lparr>sections =
         [\<lparr>def_name = ''X'', def_rule = Some \<lparr>rule_type = ''LIST'', rule_min = None, rule_max = None, min_units = 0,
                min_disciplines = 0, allow_from = [], per_list_min_units = []\<rparr>,
           def_items = [\<lparr>any_of = [\<lparr>raw_code = ''A 1'', raw_units = Some 3\<rparr>]\<rparr>]\<rparr>,
          \<lparr>def_name = ''Y'', def_rule = Some \<lparr>rule_type = ''LIST'', rule_min = None, rule_max = None, min_units = 0,
                min_disciplines = 0, allow_from = [], per_list_min_units = []\<rparr>,
           def_items = [\<lparr>any_of = [\<lparr>raw_code = ''B 1'', raw_units = Some 3\<rparr>]\<rparr>]\<rparr>],
       cross_list_rules =
         [\<lparr>cl_type = ''CROSS_LIST_UNITS'', applies_to = [''X''],
           cl_per_list_min_units = [(''X'', 3)], min_units_total = 3\<rparr>,
          \<lparr>cl_type = ''CROSS_LIST_UNITS'', applies_to = [''Y''],
           cl_per_list_min_units = [(''Y'', 3)], min_units_total = 3\<rparr>]\<rparr>
      \<lparr>completed = [\<lparr>row_code = ''A 1'', isPass = True\<rparr>, \<lparr>row_code = ''B 1'', isPass = True\<rparr>],
       ip = [], pl = []\<rparr> False False)
     = Some \<lparr>cr_done = True, totalUnits = 3, minTotal = 3, cr_earnedBySection = [(''X'', 3)],
               perMin = [(''X'', 3)],
               cr_chosenBySection = [(''X'', [\<lparr>h_code = ''A 1'', h_units = 3, itemRef = (0, 0)\<rparr>])]\<rparr>
   \<and> 2 \<le> length (cross_list_checks (evaluateProgram
      \<lparr>alias_to_canonical_codes = Map.empty, prefix_alias_to_canonical_prefix = Map.empty,
       coursesIndex = Map.empty, examEquivalencyCodes = []\<rparr>
      \<lparr>sections =
         [\<lparr>def_name = ''X'', def_rule = Some \<lparr>rule_type = ''LIST'', rule_min = None, rule_max = None, min_units = 0,
                min_disciplines = 0, allow_from = [], per_list_min_units = []\<rparr>,
           def_items = [\<lparr>any_of = [\<lparr>raw_code = ''A 1'', raw_units = Some 3\<rparr>]\<rparr>]\<rparr>,
          \<lparr>def_name = ''Y'', def_rule = Some \<lparr>rule_type = ''LIST'', rule_min = None, rule_max = None, min_units = 0,
                min_disciplines = 0, allow_from = [], per_list_min_units = []\<rparr>,
           def_items = [\<lparr>any_of = [\<lparr>raw_code = ''B 1'', raw_units = Some 3\<rparr>]\<rparr>]\<rparr>],
       cross_list_rules =
         [\<lparr>cl_type = ''CROSS_LIST_UNITS'', applies_to = [''X''],
           cl_per_list_min_units = [(''X'', 3)], min_units_total = 3\<rparr>,
          \<lparr>cl_type = ''CROSS_LIST_UNITS'', applies_to = [''Y''],
           cl_per_list_min_units = [(''Y'', 3)], min_units_total = 3\<rparr>]\<rparr>
      \<lparr>completed = [\<lparr>row_code = ''A 1'', isPass = True\<rparr>, \<lparr>row_code = ''B 1'', isPass = True\<rparr>],
       ip = [], pl = []\<rparr> False False))
   \<and> requiredItems (evaluateProgram
      \<lparr>alias_to_canonical_codes = Map.empty, prefix_alias_to_canonical_prefix = Map.empty,
       coursesIndex = Map.empty, examEquivalencyCodes = []\<rparr>
      \<lparr>sections =
         [\<lparr>def_name = ''X'', def_rule = Some \<lparr>rule_type = ''LIST'', rule_min = None, rule_max = None, min_units = 0,
                min_disciplines = 0, allow_from = [], per_list_min_units = []\<rparr>,
           def_items = [\<lparr>any_of = [\<lparr>raw_code = ''A 1'', raw_units = Some 3\<rparr>]\<rparr>]\<rparr>,
          \<lparr>def_name = ''Y'', def_rule = Some \<lparr>rule_type = ''LIST'', rule_min = None, rule_max = None, min_units = 0,
                min_disciplines = 0, allow_from = [], per_list_min_units = []\<rparr>,
           def_items = [\<lparr>any_of = [\<lparr>raw_code = ''B 1'', raw_units = Some 3\<rparr>]\<rparr>]\<rparr>],
       cross_list_rules =
         [\<lparr>cl_type = ''CROSS_LIST_UNITS'', applies_to = [''X''],
           cl_per_list_min_units = [(''X'', 3)], min_units_total = 3\<rparr>,
          \<lparr>cl_type = ''CROSS_LIST_UNITS'', applies_to = [''Y''],
           cl_per_list_min_units = [(''Y'', 3)], min_units_total = 3\<rparr>]\<rparr>
      \<lparr>completed = [\<lparr>row_code = ''A 1'', isPass = True\<rparr>, \<lparr>row_code = ''B 1'', isPass = True\<rparr>],
       ip = [], pl = []\<rparr> False False) = 2"
proof -
  let ?state = "\<lparr>alias_to_canonical_codes = Map.empty, prefix_alias_to_canonical_prefix = Map.empty,
       coursesIndex = Map.empty, examEquivalencyCodes = []\<rparr>"
  let ?r1 = "\<lparr>cl_type = ''CROSS_LIST_UNITS'', applies_to = [''X''],
           cl_per_list_min_units = [(''X'', 3)], min_units_total = 3\<rparr>"
  let ?D = "\<lparr>sections =
         [\<lparr>def_name = ''X'', def_rule = Some \<lparr>rule_type = ''LIST'', rule_min = None, rule_max = None, min_units = 0,
                min_disciplines = 0, allow_from = [], per_list_min_units = []\<rparr>,
           def_items = [\<lparr>any_of = [\<lparr>raw_code = ''A 1'', raw_units = Some 3\<rparr>]\<rparr>]\<rparr>,
          \<lparr>def_name = ''Y'', def_rule = Some \<lparr>rule_type = ''LIST'', rule_min = None, rule_max = None, min_units = 0,
                min_disciplines = 0, allow_from = [], per_list_min_units = []\<rparr>,
           def_items = [\<lparr>any_of = [\<lparr>raw_code = ''B 1'', raw_units = Some 3\<rparr>]\<rparr>]\<rparr>],
       cross_list_rules =
         [\<lparr>cl_type = ''CROSS_LIST_UNITS'', applies_to = [''X''],
           cl_per_list_min_units = [(''X'', 3)], min_units_total = 3\<rparr>,
          \<lparr>cl_type = ''CROSS_LIST_UNITS'', applies_to = [''Y''],
           cl_per_list_min_units = [(''Y'', 3)], min_units_total = 3\<rparr>]\<rparr>"
  let ?tr = "\<lparr>completed = [\<lparr>row_code = ''A 1'', isPass = True\<rparr>, \<lparr>row_code = ''B 1'', isPass = True\<rparr>],
       ip = [], pl = []\<rparr>"
  have f: "find (\<lambda>r. cl_type r = ''CROSS_LIST_UNITS'') (cross_list_rules ?D) = Some ?r1"
    by simp
  note t = cross_list_first_rule_only [OF f, where state = ?state and tr = ?tr
      and countPlanned = False and skipGESections = False]
  have one: "crossListSummary (evaluateProgram ?state (?D\<lparr>cross_list_rules := [?r1]\<rparr>) ?tr False False)
     = Some \<lparr>cr_done = True, totalUnits = 3, minTotal = 3, cr_earnedBySection = [(''X'', 3)],
               perMin = [(''X'', 3)],
               cr_chosenBySection = [(''X'', [\<lparr>h_code = ''A 1'', h_units = 3, itemRef = (0, 0)\<rparr>])]\<rparr>"
    by code_simp
  from t have "crossListSummary (evaluateProgram ?state ?D ?tr False False)
      = crossListSummary (evaluateProgram ?state (?D\<lparr>cross_list_rules := [?r1]\<rparr>) ?tr False False)"
    by blast
  with one have 1: "crossListSummary (evaluateProgram ?state ?D ?tr False False)
     = Some \<lparr>cr_done = True, totalUnits = 3, minTotal = 3, cr_earnedBySection = [(''X'', 3)],
               perMin = [(''X'', 3)],
               cr_chosenBySection = [(''X'', [\<lparr>h_code = ''A 1'', h_units = 3, itemRef = (0, 0)\<rparr>])]\<rparr>"
    by simp
  from t have "length (filter (\<lambda>x. cl_type x = ''CROSS_LIST_UNITS'') (cross_list_rules ?D))
           \<le> length (cross_list_checks (evaluateProgram ?state ?D ?tr False False))"
    by blast
  hence 2: "2 \<le> length (cross_list_checks (evaluateProgram ?state ?D ?tr False False))"
    by simp
  have 3: "requiredItems (evaluateProgram ?state ?D ?tr False False) = 2"
    by code_simp
  from 1 2 3 show ?thesis by blast
qed

subsection \<open>C2: an OR node commits its best child\<close>



section \<open>Atoms of a UNITS section (C3)\<close>




subsection \<open>C4: ranking and the two passes of \<open>pickForArea\<close>\<close>




section \<open>Two-pass cross-list allocation (C5)\<close>




section \<open>COUNT sections (C6)\<close>



section \<open>UNITS sections without discipline minimum (C7)\<close>

text \<open>
  C7, as stated, fails: with \<open>min_units = 3\<close>, \<open>min_disciplines = 0\<close>, a pool \<open>L\<close> in
  \<open>allow_from\<close> and \<open>per_list_min_units = {L: 6}\<close>, one taken 3-unit course in the section
  and two taken 3-unit courses in \<open>L\<close>, the local pass stops at 3 units, and the per-list
  step then takes both courses of \<open>L\<close>: \<open>gotUnits = 9\<close>, six units above \<open>min_units\<close>,
  while every chosen course has 3 units.
\<close>

theorem satisfyUnitsSection_overshoot:
  "fst (satisfyUnitsSection Map.empty Map.empty
       \<lparr>name = ''U'',
        rule = \<lparr>rule_type = ''UNITS'', rule_min = None, rule_max = None, min_units = 3,
                min_disciplines = 0, allow_from = [''L''], per_list_min_units = [(''L'', 6)]\<rparr>,
        items = []\<rparr>
       [\<lparr>item_ref = (0, 0), sectionName = ''U'', itemIdx = 0,
         item_options = [\<lparr>code = ''A 1'', units = 3\<rparr>]\<rparr>]
       [(''L'',
         [\<lparr>item_ref = (1, 0), sectionName = ''L'', itemIdx = 0,
           item_options = [\<lparr>code = ''B 1'', units = 3\<rparr>]\<rparr>,
          \<lparr>item_ref = (1, 1), sectionName = ''L'', itemIdx = 1,
           item_options = [\<lparr>code = ''C 1'', units = 3\<rparr>]\<rparr>])]
       {''A 1'', ''B 1'', ''C 1''} \<lparr>usedSet = {}, chosenOf = Map.empty\<rparr>)
   = \<lparr>ur_chosen = [\<lparr>ch_code = ''A 1'', ch_units = 3, ch_from = ''U''\<rparr>,
                    \<lparr>ch_code = ''B 1'', ch_units = 3, ch_from = ''L''\<rparr>,
                    \<lparr>ch_code = ''C 1'', ch_units = 3, ch_from = ''L''\<rparr>],
       ur_gotUnits = 9, ur_missing = [], ur_minUnits = 3\<rparr>"
  by code_simp

text \<open>
  C7, amended. For a UNITS section with \<open>min_disciplines = 0\<close>, no positive per-list
  minimum on any list of \<open>allow_from\<close>, and non-negative unit values on the options of the
  section: either nothing is chosen and \<open>gotUnits = 0\<close>, or \<open>gotUnits\<close> is below
  \<open>min_units\<close> plus the units of the course chosen last. So the allocator stops adding
  courses once \<open>min_units\<close> is reached and exceeds it by less than one chosen course.
\<close>

theorem satisfyUnitsSection_no_disciplines:
  assumes nodisc: "min_disciplines (rule s) = 0"
    and noper: "\<forall>l\<in>set (allow_from (rule s)). lookup0 (per_list_min_units (rule s)) l \<le> 0"
    and nonneg: "\<forall>it\<in>set sectionItems. \<forall>opt\<in>set (item_options it). 0 \<le> units opt"
    and run: "satisfyUnitsSection aliases prefixAliases s sectionItems poolsByList takenSet st = (res, st')"
  shows "(ur_chosen res = [] \<and> ur_gotUnits res = 0)
         \<or> (ur_chosen res \<noteq> []
             \<and> ur_gotUnits res < min_units (rule s) + ch_units (last (ur_chosen res)))"
proof -
  let ?acc0 = "\<lparr>chosen = [], gotUnits = 0, ust = st\<rparr>"
  let ?acc1 = "unitsLocal (min_units (rule s)) (name s) takenSet sectionItems ?acc0"
  let ?acc3 = "topUp s sectionItems poolsByList takenSet (min_units (rule s)) ?acc1"
  have w0: "withinOne (min_units (rule s)) ?acc0" by (simp add: withinOne_def)
  have w1: "withinOne (min_units (rule s)) ?acc1" using w0 by (rule unitsLocal_withinOne)
  have n1: "\<forall>c\<in>set (chosen ?acc1). 0 \<le> ch_units c"
    by (rule unitsLocal_nonneg[OF nonneg]) simp
  have p: "perListAll poolsByList takenSet (per_list_min_units (rule s)) (allow_from (rule s)) ?acc1 = ?acc1"
    using noper n1 by (rule perListAll_idle)
  have w3: "withinOne (min_units (rule s)) ?acc3" using w1 by (rule topUp_withinOne)
  from run nodisc p have "ur_chosen res = chosen ?acc3" "ur_gotUnits res = gotUnits ?acc3"
    by (auto simp: satisfyUnitsSection_def Let_def)
  with w3 show ?thesis by (simp add: withinOne_def)
qed


theorem satisfyUnitsSection_no_disciplines_witness:
  "fst (satisfyUnitsSection Map.empty Map.empty
       \<lparr>name = ''U'',
        rule = \<lparr>rule_type = ''UNITS'', rule_min = None, rule_max = None, min_units = 4,
                min_disciplines = 0, allow_from = [''L''], per_list_min_units = []\<rparr>,
        items = []\<rparr>
       [\<lparr>item_ref = (0, 0), sectionName = ''U'', itemIdx = 0,
         item_options = [\<lparr>code = ''A 1'', units = 3\<rparr>]\<rparr>,
        \<lparr>item_ref = (0, 1), sectionName = ''U'', itemIdx = 1,
         item_options = [\<lparr>code = ''B 1'', units = 3\<rparr>]\<rparr>,
        \<lparr>item_ref = (0, 2), sectionName = ''U'', itemIdx = 2,
         item_options = [\<lparr>code = ''C 1'', units = 3\<rparr>]\<rparr>]
       [(''L'',
         [\<lparr>item_ref = (1, 0), sectionName = ''L'', itemIdx = 0,
           item_options = [\<lparr>code = ''D 1'', units = 3\<rparr>]\<rparr>])]
       {''A 1'', ''B 1'', ''C 1'', ''D 1''} \<lparr>usedSet = {}, chosenOf = Map.empty\<rparr>)
   = \<lparr>ur_chosen = [\<lparr>ch_code = ''A 1'', ch_units = 3, ch_from = ''U''\<rparr>,
                    \<lparr>ch_code = ''B 1'', ch_units = 3, ch_from = ''U''\<rparr>],
       ur_gotUnits = 6, ur_missing = [], ur_minUnits = 4\<rparr>
   \<and> ur_gotUnits (fst (satisfyUnitsSection Map.empty Map.empty
       \<lparr>name = ''U'',
        rule = \<lparr>rule_type = ''UNITS'', rule_min = None, rule_max = None, min_units = 4,
                min_disciplines = 0, allow_from = [''L''], per_list_min_units = []\<rparr>,
        items = []\<rparr>
       [\<lparr>item_ref = (0, 0), sectionName = ''U'', itemIdx = 0,
         item_options = [\<lparr>code = ''A 1'', units = 3\<rparr>]\<rparr>,
        \<lparr>item_ref = (0, 1), sectionName = ''U'', itemIdx = 1,
         item_options = [\<lparr>code = ''B 1'', units = 3\<rparr>]\<rparr>,
        \<lparr>item_ref = (0, 2), sectionName = ''U'', itemIdx = 2,
         item_options = [\<lparr>code = ''C 1'', units = 3\<rparr>]\<rparr>]
       [(''L'',
         [\<lparr>item_ref = (1, 0), sectionName = ''L'', itemIdx = 0,
           item_options = [\<lparr>code = ''D 1'', units = 3\<rparr>]\<rparr>])]
       {''A 1'', ''B 1'', ''C 1'', ''D 1''} \<lparr>usedSet = {}, chosenOf = Map.empty\<rparr>))
       < min_units (rule \<lparr>name = ''U'',
        rule = \<lparr>rule_type = ''UNITS'', rule_min = None, rule_max = None, min_units = 4,
                min_disciplines = 0, allow_from = [''L''], per_list_min_units = []\<rparr>,
        items = []\<rparr>)
         + ch_units (last (ur_chosen (fst (satisfyUnitsSection Map.empty Map.empty
       \<lparr>name = ''U'',
        rule = \<lparr>rule_type = ''UNITS'', rule_min = None, rule_max = None, min_units = 4,
                min_disciplines = 0, allow_from = [''L''], per_list_min_units = []\<rparr>,
        items = []\<rparr>
       [\<lparr>item_ref = (0, 0), sectionName = ''U'', itemIdx = 0,
         item_options = [\<lparr>code = ''A 1'', units = 3\<rparr>]\<rparr>,
        \<lparr>item_ref = (0, 1), sectionName = ''U'', itemIdx = 1,
         item_options = [\<lparr>code = ''B 1'', units = 3\<rparr>]\<rparr>,
        \<lparr>item_ref = (0, 2), sectionName = ''U'', itemIdx = 2,
         item_options = [\<lparr>code = ''C 1'', units = 3\<rparr>]\<rparr>]
       [(''L'',
         [\<lparr>item_ref = (1, 0), sectionName = ''L'', itemIdx = 0,
           item_options = [\<lparr>code = ''D 1'', units = 3\<rparr>]\<rparr>])]
       {''A 1'', ''B 1'', ''C 1'', ''D 1''} \<lparr>usedSet = {}, chosenOf = Map.empty\<rparr>))))"
proof -
  let ?S = "\<lparr>name = ''U'',
        rule = \<lparr>rule_type = ''UNITS'', rule_min = None, rule_max = None, min_units = 4,
                min_disciplines = 0, allow_from = [''L''], per_list_min_units = []\<rparr>,
        items = []\<rparr>"
  let ?I = "[\<lparr>item_ref = (0, 0), sectionName = ''U'', itemIdx = 0,
         item_options = [\<lparr>code = ''A 1'', units = 3\<rparr>]\<rparr>,
        \<lparr>item_ref = (0, 1), sectionName = ''U'', itemIdx = 1,
         item_options = [\<lparr>code = ''B 1'', units = 3\<rparr>]\<rparr>,
        \<lparr>item_ref = (0, 2), sectionName = ''U'', itemIdx = 2,
         item_options = [\<lparr>code = ''C 1'', units = 3\<rparr>]\<rparr>]"
  let ?P = "[(''L'',
         [\<lparr>item_ref = (1, 0), sectionName = ''L'', itemIdx = 0,
           item_options = [\<lparr>code = ''D 1'', units = 3\<rparr>]\<rparr>])]"
  let ?T = "{''A 1'', ''B 1'', ''C 1'', ''D 1''}"
  let ?st = "\<lparr>usedSet = {}, chosenOf = Map.empty\<rparr>"
  let ?R = "satisfyUnitsSection Map.empty Map.empty ?S ?I ?P ?T ?st"
  have ev: "fst ?R = \<lparr>ur_chosen = [\<lparr>ch_code = ''A 1'', ch_units = 3, ch_from = ''U''\<rparr>,
                    \<lparr>ch_code = ''B 1'', ch_units = 3, ch_from = ''U''\<rparr>],
       ur_gotUnits = 6, ur_missing = [], ur_minUnits = 4\<rparr>"
    by code_simp
  have h1: "min_disciplines (rule ?S) = 0" by simp
  have h2: "\<forall>l\<in>set (allow_from (rule ?S)). lookup0 (per_list_min_units (rule ?S)) l \<le> 0"
    by (simp add: lookup0_def)
  have h3: "\<forall>it\<in>set ?I. \<forall>opt\<in>set (item_options it). 0 \<le> units opt" by simp
  have run: "?R = (fst ?R, snd ?R)" by simp
  from satisfyUnitsSection_no_disciplines [OF h1 h2 h3 run]
  have "(ur_chosen (fst ?R) = [] \<and> ur_gotUnits (fst ?R) = 0)
         \<or> (ur_chosen (fst ?R) \<noteq> []
             \<and> ur_gotUnits (fst ?R) < min_units (rule ?S) + ch_units (last (ur_chosen (fst ?R))))" .
  moreover have "ur_chosen (fst ?R) \<noteq> []" by (simp only: ev) simp
  ultimately have "ur_gotUnits (fst ?R) < min_units (rule ?S) + ch_units (last (ur_chosen (fst ?R)))"
    by blast
  with ev show ?thesis by blast
qed

subsection \<open>C8: LIST sections are evaluated as ALL sections\<close>




section \<open>Prerequisite trees (C9)\<close>

lemma met_taken_canonical:
  assumes "\<forall>t\<in>takenSet. canonicalizeCode aliases t = t"
  shows "(normalizeCode c \<in> takenSet \<or> canonicalizeCode aliases (normalizeCode c) \<in> takenSet)
         \<longleftrightarrow> canonicalizeCode aliases (normalizeCode c) \<in> takenSet"
  using assms by auto

text \<open>
  C9. For a taken-set of canonical codes (each one a fixed point of \<open>canonicalizeCode\<close>):
  an AND node is met iff every child is met; an OR node is met iff some child is met; a
  course leaf (a node that is neither AND nor OR and has a non-empty \<open>course\<close>) flagged
  \<open>Concurrent\<close> is met whatever was taken; any other course leaf is met iff the canonical
  code it refers to is in the taken-set. The tree And(A, Or(B, C)) with A and C taken is met.
  The evaluator only queries membership of \<open>takenSet\<close>: the set is an argument of the
  function and no part of its result, so an evaluation cannot change it.
\<close>

theorem evalPrereqNode_met:
  assumes canon: "\<forall>t\<in>takenSet. canonicalizeCode aliases t = t"
  shows
    "(met (evalPrereqNode aliases userExams takenSet (PNode ''AND'' ns c ord tx))
        \<longleftrightarrow> (\<forall>n\<in>set ns. met (evalPrereqNode aliases userExams takenSet n)))
     \<and> (met (evalPrereqNode aliases userExams takenSet (PNode ''OR'' ns c ord tx))
        \<longleftrightarrow> (\<exists>n\<in>set ns. met (evalPrereqNode aliases userExams takenSet n)))
     \<and> (nop \<noteq> ''AND'' \<and> nop \<noteq> ''OR'' \<and> c \<noteq> [] \<longrightarrow>
          met (evalPrereqNode aliases userExams takenSet (PNode nop ns c ''Concurrent'' tx)))
     \<and> (nop \<noteq> ''AND'' \<and> nop \<noteq> ''OR'' \<and> c \<noteq> [] \<and> ord \<noteq> ''Concurrent'' \<longrightarrow>
          (met (evalPrereqNode aliases userExams takenSet (PNode nop ns c ord tx))
             \<longleftrightarrow> canonicalizeCode aliases (normalizeCode c) \<in> takenSet))
     \<and> met (evalPrereqNode Map.empty [] {''A'', ''C''}
            (PNode ''AND'' [PNode [] [] ''A'' [] [],
                            PNode ''OR'' [PNode [] [] ''B'' [] [], PNode [] [] ''C'' [] []] [] [] []]
               [] [] []))"
proof (intro conjI)
  show "met (evalPrereqNode aliases userExams takenSet (PNode ''AND'' ns c ord tx))
        \<longleftrightarrow> (\<forall>n\<in>set ns. met (evalPrereqNode aliases userExams takenSet n))"
    by (simp add: Let_def list_all_iff)
  show "met (evalPrereqNode aliases userExams takenSet (PNode ''OR'' ns c ord tx))
        \<longleftrightarrow> (\<exists>n\<in>set ns. met (evalPrereqNode aliases userExams takenSet n))"
    by (simp add: Let_def list_ex_iff)
  show "nop \<noteq> ''AND'' \<and> nop \<noteq> ''OR'' \<and> c \<noteq> [] \<longrightarrow>
          met (evalPrereqNode aliases userExams takenSet (PNode nop ns c ''Concurrent'' tx))"
    by simp
  show "nop \<noteq> ''AND'' \<and> nop \<noteq> ''OR'' \<and> c \<noteq> [] \<and> ord \<noteq> ''Concurrent'' \<longrightarrow>
          (met (evalPrereqNode aliases userExams takenSet (PNode nop ns c ord tx))
             \<longleftrightarrow> canonicalizeCode aliases (normalizeCode c) \<in> takenSet)"
    using met_taken_canonical[OF canon, of c] by (simp add: Let_def)
  show "met (evalPrereqNode Map.empty [] {''A'', ''C''}
            (PNode ''AND'' [PNode [] [] ''A'' [] [],
                            PNode ''OR'' [PNode [] [] ''B'' [] [], PNode [] [] ''C'' [] []] [] [] []]
               [] [] []))"
    by (simp add: Let_def normalizeCode_def canonicalizeCode_def toUpperCase_def trim_def
        collapseSpaces_def isSpace_def)
qed

theorem evalPrereqNode_met_witness:
  "canonicalizeCode Map.empty ''A'' = ''A'' \<and> canonicalizeCode Map.empty ''C'' = ''C''
   \<and> \<not> met (evalPrereqNode Map.empty [] {''A'', ''C''}
            (PNode ''AND'' [PNode [] [] ''A'' [] [], PNode [] [] ''B'' [] []] [] [] []))
   \<and> met (evalPrereqNode Map.empty [] {''A'', ''C''}
            (PNode ''OR'' [PNode [] [] ''A'' [] [], PNode [] [] ''B'' [] []] [] [] []))
   \<and> met (evalPrereqNode Map.empty [] {''A'', ''C''} (PNode [] [] ''B'' ''Concurrent'' []))
   \<and> \<not> met (evalPrereqNode Map.empty [] {''A'', ''C''} (PNode [] [] ''B'' [] []))
   \<and> met (evalPrereqNode Map.empty [] {''A'', ''C''} (PNode [] [] ''c'' [] []))"
proof -
  have h: "\<forall>t\<in>{''A'', ''C''}. canonicalizeCode Map.empty t = t"
    by (simp add: normalizeCode_def canonicalizeCode_def toUpperCase_def trim_def
        collapseSpaces_def isSpace_def)
  have ev: "canonicalizeCode Map.empty (normalizeCode ''B'') = ''B''"
    "canonicalizeCode Map.empty (normalizeCode ''A'') = ''A''"
    "canonicalizeCode Map.empty (normalizeCode ''c'') = ''C''"
    by (simp_all add: normalizeCode_def canonicalizeCode_def toUpperCase_def trim_def
        collapseSpaces_def isSpace_def)
  note t = evalPrereqNode_met [OF h, where userExams = "[]" and c = "[]" and nop = "[]"
      and ord = "[]" and tx = "[]"
      and ns = "[PNode [] [] ''A'' [] [], PNode [] [] ''B'' [] []]"]
  note v = evalPrereqNode_met [OF h, where userExams = "[]" and c = "''B''" and nop = "[]"
      and ord = "[]" and tx = "[]" and ns = "[]"]
  note u = evalPrereqNode_met [OF h, where userExams = "[]" and c = "''c''" and nop = "[]"
      and ord = "[]" and tx = "[]" and ns = "[]"]
  have a: "met (evalPrereqNode Map.empty [] {''A'', ''C''} (PNode [] [] ''A'' [] []))"
    by (simp add: Let_def ev)
  have b: "\<not> met (evalPrereqNode Map.empty [] {''A'', ''C''} (PNode [] [] ''B'' [] []))"
    using v by (simp add: ev)
  have c: "met (evalPrereqNode Map.empty [] {''A'', ''C''} (PNode [] [] ''c'' [] []))"
    using u by (simp add: ev)
  have conc: "met (evalPrereqNode Map.empty [] {''A'', ''C''} (PNode [] [] ''B'' ''Concurrent'' []))"
    using v by simp
  have andn: "\<not> met (evalPrereqNode Map.empty [] {''A'', ''C''}
            (PNode ''AND'' [PNode [] [] ''A'' [] [], PNode [] [] ''B'' [] []] [] [] []))"
    using t b by (simp del: evalPrereqNode.simps)
  have orn: "met (evalPrereqNode Map.empty [] {''A'', ''C''}
            (PNode ''OR'' [PNode [] [] ''A'' [] [], PNode [] [] ''B'' [] []] [] [] []))"
    using t a by (simp del: evalPrereqNode.simps)
  show ?thesis using h andn orn conc b c by blast
qed

end
